theory Spec2Isabelle
  imports Complex_Main
begin

section \<open>The data model the driver works on\<close>

text \<open>
  The driver (\<^verbatim>\<open>mac_gui.py\<close>) and the notification glue (\<^verbatim>\<open>notifs.py\<close>) are embedded
  function by function. Python objects become records, the generator and the loops become
  recursive functions, every mutation is explicit state passing, and every call that
  leaves the driver (a notification request, a call into the day model, a print) is an
  entry of the effect trace the function returns. An exception is a value of \<open>exn\<close>.
\<close>

text \<open>\<open>datetime\<close>: only \<^verbatim>\<open>.date()\<close> is used by the driver.\<close>

record datetime =
  date :: int
  timeOfDay :: nat

text \<open>
  Modelled from the spec: the classes \<^verbatim>\<open>Intention\<close>, \<^verbatim>\<open>Pomodoro\<close>, \<^verbatim>\<open>Break\<close>,
  \<^verbatim>\<open>Day\<close> and the enumeration \<^verbatim>\<open>IntentionResponse\<close> are imported from
  \<^verbatim>\<open>pomodouroboros.pommodel\<close>, whose source is absent. Their fields are the ones of the
  spec's data model (section 3), which are also the ones the driver reads.
\<close>

record Intention =
  description :: string
  wasSuccessful :: "bool option"

record Pomodoro =
  intention :: "Intention option"
  startTime :: datetime
  endTime :: datetime

record Break =
  startTime :: datetime
  endTime :: datetime

text \<open>\<^verbatim>\<open>isinstance(x, Pomodoro)\<close> is a match on the constructor.\<close>

datatype Interval = IsPomodoro Pomodoro | IsBreak Break

record Day =
  startTime :: datetime
  pendingIntervals :: "Interval list"
  elapsedIntervals :: "Interval list"

datatype IntentionResponse = CanBeSet | AlreadySet | OnBreak | TooLate | WasSet

text \<open>
  Exceptions. \<open>IndexError\<close> and \<open>AttributeError\<close> are the ones the driver's own
  expressions can raise; \<open>Raised\<close> is any exception (any \<^verbatim>\<open>BaseException\<close>) raised inside
  a collaborator.
\<close>

datatype exn = IndexError | AttributeError | Raised string

section \<open>The views and the observer state\<close>

datatype NSColor =
  greenColor | redColor | yellowColor | purpleColor | blueColor
  | lightGrayColor | darkGrayColor | orangeColor | blackColor

text \<open>
  \<^verbatim>\<open>BigProgressView\<close>: the three attributes, and the redisplay flag that
  \<^verbatim>\<open>setNeedsDisplay_\<close> raises.
\<close>

record BigProgressView =
  percentage :: real
  leftColor :: NSColor
  rightColor :: NSColor
  needsDisplay :: bool

definition initBigProgressView :: BigProgressView where
  "initBigProgressView =
     \<lparr>percentage = 0, leftColor = greenColor, rightColor = redColor, needsDisplay = False\<rparr>"

text \<open>
  The Objective-C selectors \<^verbatim>\<open>setPercentage_\<close>, \<^verbatim>\<open>setLeftColor_\<close>, \<^verbatim>\<open>setRightColor_\<close>
  and \<^verbatim>\<open>drawRect_\<close> lose their trailing underscore, which a name cannot end with here.
\<close>

definition setPercentage :: "BigProgressView \<Rightarrow> real \<Rightarrow> BigProgressView" where
  "setPercentage self newPercentage = self\<lparr>percentage := newPercentage, needsDisplay := True\<rparr>"

definition setLeftColor :: "BigProgressView \<Rightarrow> NSColor \<Rightarrow> BigProgressView" where
  "setLeftColor self newLeftColor = self\<lparr>leftColor := newLeftColor\<rparr>"

definition setRightColor :: "BigProgressView \<Rightarrow> NSColor \<Rightarrow> BigProgressView" where
  "setRightColor self newRightColor = self\<lparr>rightColor := newRightColor\<rparr>"

record NSRect =
  originX :: real
  originY :: real
  width :: real
  height :: real

datatype drawing = SetColor NSColor | FillRect NSRect

text \<open>\<^verbatim>\<open>drawRect_\<close> given the view's \<^verbatim>\<open>bounds()\<close>: the drawing calls, in order.\<close>

definition drawRect :: "BigProgressView \<Rightarrow> NSRect \<Rightarrow> drawing list" where
  "drawRect self bounds =
     (let split = percentage self * width bounds
      in [SetColor (leftColor self),
          FillRect \<lparr>originX = 0, originY = 0, width = split, height = height bounds\<rparr>,
          SetColor (rightColor self),
          FillRect \<lparr>originX = split, originY = 0,
                    width = width bounds - split, height = height bounds\<rparr>])"

text \<open>\<^verbatim>\<open>HUDWindow\<close>: the two window properties the observer sets.\<close>

record HUDWindow =
  isVisible :: bool
  alphaValue :: real

record MacPomObserver =
  progressView :: BigProgressView
  window :: HUDWindow
  lastThreshold :: real
  active :: bool

text \<open>The class attribute \<^verbatim>\<open>MacPomObserver.thresholds\<close>.\<close>

definition thresholds :: "(real \<times> string) list" where
  "thresholds =
     [(0.25, ''Time to get started!''),
      (0.50, ''Halfway there.''),
      (0.75, ''Time to finish up.''),
      (0.95, ''Almost done!'')]"

section \<open>Effects\<close>

text \<open>
  A notification request as \<^verbatim>\<open>notifs.py\<close> builds it: the request identifier and the
  content's title, subtitle, body and category (a field the code does not set keeps the
  empty string). Both kinds of request use the same one-second, non-repeating trigger,
  which is left out.
\<close>

record UNNotificationRequest =
  requestIdentifier :: string
  title :: string
  subtitle :: string
  body :: string
  categoryIdentifier :: string

text \<open>
  The one closure the driver registers as a notification handler,
  \<^verbatim>\<open>lambda userText: expressIntention(day, userText)\<close>. The \<^verbatim>\<open>Day\<close> it closes over is a
  mutable object, so its state is supplied when the handler runs.
\<close>

datatype callback = ExpressIntentionCallback

text \<open>What a \<^verbatim>\<open>print\<close> call is given: literals and the values shown after them.\<close>

datatype printed =
  Lit string | ShownBool bool | ShownResponse IntentionResponse | ShownDate int

text \<open>What an entry of the status menu runs when chosen (the lambdas of \<^verbatim>\<open>start\<close>).\<close>

datatype menuAction =
  SetIntentionAction | BonusAction | SetSuccessAction bool int | QuitAction

text \<open>
  The trace entries. \<open>Calls_*\<close> record a call of a method or function of the absent
  modules \<^verbatim>\<open>pommodel\<close> and \<^verbatim>\<open>storage\<close>, with the receiver and the arguments.
\<close>

datatype effect =
    Print "printed list"
  | PrintTraceback exn
  | SetHandler string callback
  | AddNotificationRequest UNNotificationRequest
  | NewStatus string
  | SetMenu "(string \<times> menuAction) list"
  | SetTitle string
  | SaveDay Day
  | Calls_forTesting
  | Calls_loadOrCreateDay int
  | Calls_advanceToTime Day datetime MacPomObserver
  | Calls_expressIntention Day datetime string
  | Calls_evaluateIntention Day Pomodoro bool
  | Calls_bonusPomodoro Day datetime
  | Calls_quit

section \<open>notifs.py\<close>

definition categoryIdentifier' :: string where
  "categoryIdentifier' = ''SET_INTENTION_PROMPT''"

definition messageIdentifier :: string where
  "messageIdentifier = ''basic-message''"

text \<open>
  \<^verbatim>\<open>askForIntent\<close>: stores the callback in \<^verbatim>\<open>theDelegate.handlers\<close> and adds the request.
  The completion handler, which only prints, runs later and is not part of the call.
\<close>

definition askForIntent :: "callback \<Rightarrow> effect list" where
  "askForIntent cb =
     [SetHandler ''ask-for-intent'' cb,
      AddNotificationRequest
        \<lparr>requestIdentifier = ''ask-for-intent'',
         title = ''Time To Set Intention'',
         subtitle = [],
         body = ''What do you want to do right now?'',
         categoryIdentifier = categoryIdentifier'\<rparr>]"

definition notify :: "string \<Rightarrow> string \<Rightarrow> string \<Rightarrow> effect list" where
  "notify title' subtitle' informativeText =
     [AddNotificationRequest
        \<lparr>requestIdentifier = messageIdentifier,
         title = title',
         subtitle = subtitle',
         body = informativeText,
         categoryIdentifier = []\<rparr>]"

section \<open>MacPomObserver\<close>

text \<open>
  Python floats are modelled as reals. Strings are byte strings: the typographic quotes
  of the source are their UTF-8 bytes.
\<close>

definition ldquo :: string where
  "ldquo = [CHR 0xE2, CHR 0x80, CHR 0x9C]"

definition rdquo :: string where
  "rdquo = [CHR 0xE2, CHR 0x80, CHR 0x9D]"

definition setIsVisible :: "MacPomObserver \<Rightarrow> bool \<Rightarrow> MacPomObserver" where
  "setIsVisible self v = self\<lparr>window := (window self)\<lparr>isVisible := v\<rparr>\<rparr>"

definition breakStarting :: "MacPomObserver \<Rightarrow> Break \<Rightarrow> MacPomObserver \<times> effect list" where
  "breakStarting self startingBreak =
     (setIsVisible (self\<lparr>active := True\<rparr>) True,
      Print [Lit ''break start''] # notify ''Starting Break'' ''Take it easy for a while.'' [])"

definition pomodoroStarting ::
  "MacPomObserver \<Rightarrow> Day \<Rightarrow> Pomodoro \<Rightarrow> MacPomObserver \<times> effect list" where
  "pomodoroStarting self day startingPomodoro =
     (setIsVisible (self\<lparr>active := True, lastThreshold := 0\<rparr>) True,
      Print [Lit ''pom start''] # askForIntent ExpressIntentionCallback)"

definition elapsedWithNoIntention ::
  "MacPomObserver \<Rightarrow> Pomodoro \<Rightarrow> MacPomObserver \<times> effect list" where
  "elapsedWithNoIntention self pomodoro =
     (self,
      notify ''Pomodoro Failed'' [] ''The pomodoro elapsed with no intention specified.'')"

text \<open>
  The loop \<^verbatim>\<open>for pct, message in self.thresholds\<close> of \<^verbatim>\<open>progressUpdate\<close>, for an
  intention with the given description.
\<close>

fun remindLoop ::
  "string \<Rightarrow> real \<Rightarrow> (real \<times> string) list \<Rightarrow> MacPomObserver \<Rightarrow> MacPomObserver \<times> effect list"
where
  "remindLoop desc percentageElapsed [] self = (self, [])"
| "remindLoop desc percentageElapsed ((pct, message) # rest) self =
     (if lastThreshold self \<le> pct \<and> percentageElapsed > pct
      then (case remindLoop desc percentageElapsed rest
                   (self\<lparr>lastThreshold := percentageElapsed\<rparr>) of
              (self', es) \<Rightarrow>
                (self', notify ''Remember Your Intention'' message (ldquo @ desc @ rdquo) @ es))
      else remindLoop desc percentageElapsed rest self)"

text \<open>The local variables of \<^verbatim>\<open>progressUpdate\<close> that the branches adjust.\<close>

record pulse =
  baseAlphaValue :: real
  alphaVariance :: real
  pulseMultiplier :: real

definition setColors :: "MacPomObserver \<Rightarrow> NSColor \<Rightarrow> NSColor \<Rightarrow> MacPomObserver" where
  "setColors self l r = self\<lparr>progressView := setRightColor (setLeftColor (progressView self) l) r\<rparr>"

text \<open>
  \<^verbatim>\<open>progressUpdate\<close>. The last argument is the reading of \<^verbatim>\<open>rawSeconds()\<close>. The first
  \<^verbatim>\<open>if\<close> stands alone; the second opens the \<^verbatim>\<open>if\<close>/\<^verbatim>\<open>elif\<close> chain.
\<close>

definition progressUpdate ::
  "MacPomObserver \<Rightarrow> Interval \<Rightarrow> real \<Rightarrow> IntentionResponse \<Rightarrow> real
     \<Rightarrow> MacPomObserver \<times> effect list" where
  "progressUpdate self interval percentageElapsed canSetIntention rawSeconds =
     (let v0 = \<lparr>baseAlphaValue = 0.15, alphaVariance = 0.015, pulseMultiplier = 1.5\<rparr>;
          (self1, v1) =
            (if canSetIntention = CanBeSet
             then (setColors self yellowColor purpleColor,
                   \<lparr>baseAlphaValue = baseAlphaValue v0 + 0.1,
                    alphaVariance = alphaVariance v0 * 2,
                    pulseMultiplier = pulseMultiplier v0 * 2\<rparr>)
             else (self, v0));
          (self2, es, v2) =
            (if canSetIntention = AlreadySet
             then (let selfc = setColors self1 greenColor blueColor
                   in case interval of
                        IsPomodoro pom \<Rightarrow>
                          (case intention pom of
                             Some i \<Rightarrow>
                               (case remindLoop (description i) percentageElapsed
                                       thresholds selfc of
                                  (selfr, esr) \<Rightarrow> (selfr, esr, v1))
                           | None \<Rightarrow> (selfc, [], v1))
                      | IsBreak b \<Rightarrow> (selfc, [], v1))
             else if canSetIntention = OnBreak
             then (setColors self1 lightGrayColor darkGrayColor, [],
                   v1\<lparr>pulseMultiplier := pulseMultiplier v1 / 2,
                      alphaVariance := alphaVariance v1 / 2\<rparr>)
             else if canSetIntention = TooLate
             then (setColors self1 orangeColor redColor, [], v1)
             else (self1, [], v1));
          self3 = self2\<lparr>progressView := setPercentage (progressView self2) percentageElapsed\<rparr>;
          alphaValue' =
            sin (rawSeconds * pulseMultiplier v2) * alphaVariance v2 + baseAlphaValue v2;
          self4 = setIsVisible (self3\<lparr>active := True\<rparr>) True
      in (self4\<lparr>window := (window self4)\<lparr>alphaValue := alphaValue'\<rparr>\<rparr>, es))"

definition dayOver :: "MacPomObserver \<Rightarrow> MacPomObserver \<times> effect list" where
  "dayOver self =
     (setIsVisible (self\<lparr>active := False\<rparr>) False,
      [Print [Lit ''The day is over. Goodbye.'']])"

text \<open>
  The five calls a \<^verbatim>\<open>Day\<close> makes on its observer, as data, and the method each one
  runs. \<^verbatim>\<open>progressUpdate\<close> reads the clock, so every call comes with the reading of
  \<^verbatim>\<open>rawSeconds()\<close> at that moment.
\<close>

datatype ObserverEvent =
    BreakStarting Break
  | PomodoroStarting Day Pomodoro
  | ElapsedWithNoIntention Pomodoro
  | ProgressUpdate Interval real IntentionResponse
  | DayOver

fun deliver :: "real \<Rightarrow> ObserverEvent \<Rightarrow> MacPomObserver \<Rightarrow> MacPomObserver \<times> effect list" where
  "deliver rawSeconds (BreakStarting b) self = breakStarting self b"
| "deliver rawSeconds (PomodoroStarting d p) self = pomodoroStarting self d p"
| "deliver rawSeconds (ElapsedWithNoIntention p) self = elapsedWithNoIntention self p"
| "deliver rawSeconds (ProgressUpdate i pct r) self = progressUpdate self i pct r rawSeconds"
| "deliver rawSeconds DayOver self = dayOver self"

fun deliverAll ::
  "(real \<times> ObserverEvent) list \<Rightarrow> MacPomObserver \<Rightarrow> MacPomObserver \<times> effect list" where
  "deliverAll [] self = (self, [])"
| "deliverAll ((rawSeconds, ev) # evs) self =
     (case deliver rawSeconds ev self of
        (self', es) \<Rightarrow> (case deliverAll evs self' of (self'', es') \<Rightarrow> (self'', es @ es')))"

fun isPomodoroStarting :: "ObserverEvent \<Rightarrow> bool" where
  "isPomodoroStarting (PomodoroStarting d p) = True"
| "isPomodoroStarting ev = False"

text \<open>The reminder notifications of a trace, and those that carry a given message.\<close>

fun isReminder :: "effect \<Rightarrow> bool" where
  "isReminder (AddNotificationRequest r) = (title r = ''Remember Your Intention'')"
| "isReminder e = False"

fun isReminderWith :: "string \<Rightarrow> effect \<Rightarrow> bool" where
  "isReminderWith message (AddNotificationRequest r) =
     (title r = ''Remember Your Intention'' \<and> subtitle r = message)"
| "isReminderWith message e = False"

section \<open>The collaborators of the driver\<close>

text \<open>
  What the driver calls in \<^verbatim>\<open>pommodel\<close> and \<^verbatim>\<open>storage\<close>, whose sources are absent, taken as
  parameters. Each may raise. A method that mutates its \<^verbatim>\<open>Day\<close> returns the day after the
  call. \<open>Day_advanceToTime\<close> returns the day, the calls it made on its observer, in
  order, and the exception it ended with, if any. \<open>Day_evaluateIntention\<close> mutates the
  Pomodoro it is given and returns it.
\<close>

record Collaborators =
  TEST_MODE :: bool
  Day_forTesting :: "exn + Day"
  loadOrCreateDay :: "int \<Rightarrow> exn + Day"
  Day_advanceToTime :: "Day \<Rightarrow> datetime \<Rightarrow> Day \<times> ObserverEvent list \<times> exn option"
  Day_expressIntention :: "Day \<Rightarrow> datetime \<Rightarrow> string \<Rightarrow> exn + IntentionResponse \<times> Day"
  Day_evaluateIntention :: "Pomodoro \<Rightarrow> bool \<Rightarrow> exn + Pomodoro"
  Day_bonusPomodoro :: "Day \<Rightarrow> datetime \<Rightarrow> exn + Day"
  Day_successfulPomodoros :: "Day \<Rightarrow> exn + Pomodoro list"
  Day_failedPomodoros :: "Day \<Rightarrow> exn + Pomodoro list"
  Day_unEvaluatedPomodoros :: "Day \<Rightarrow> exn + Pomodoro list"
  Day_pendingPomodoros :: "Day \<Rightarrow> exn + Pomodoro list"

text \<open>
  Modelled from the spec: \<^verbatim>\<open>Day.expressIntention\<close> of the absent \<^verbatim>\<open>pommodel\<close>, after
  section 4.2: it inspects the head of \<^verbatim>\<open>pendingIntervals\<close>; a Break gives \<^verbatim>\<open>OnBreak\<close>, a
  Pomodoro that has an intention gives \<^verbatim>\<open>AlreadySet\<close>, a Pomodoro without one gets the
  intention and \<^verbatim>\<open>WasSet\<close> inside its acceptance window and \<^verbatim>\<open>TooLate\<close> after it; only the
  \<^verbatim>\<open>WasSet\<close> case mutates. With no pending interval the answer is \<^verbatim>\<open>TooLate\<close> (sections
  4.1 and 7). The acceptance window is a policy the spec leaves open: the parameter
  \<open>accepts\<close>.
\<close>

definition spec_expressIntention ::
  "(datetime \<Rightarrow> Pomodoro \<Rightarrow> bool) \<Rightarrow> Day \<Rightarrow> datetime \<Rightarrow> string
     \<Rightarrow> exn + IntentionResponse \<times> Day" where
  "spec_expressIntention accepts day present text' =
     (case pendingIntervals day of
        [] \<Rightarrow> Inr (TooLate, day)
      | IsBreak b # rest \<Rightarrow> Inr (OnBreak, day)
      | IsPomodoro p # rest \<Rightarrow>
          (case intention p of
             Some i \<Rightarrow> Inr (AlreadySet, day)
           | None \<Rightarrow>
               if accepts present p
               then Inr (WasSet,
                      day\<lparr>pendingIntervals :=
                        IsPomodoro (p\<lparr>intention :=
                          Some \<lparr>description = text', wasSuccessful = None\<rparr>\<rparr>) # rest\<rparr>)
               else Inr (TooLate, day)))"

text \<open>
  Modelled from the spec: \<^verbatim>\<open>Day.evaluateIntention\<close> of the absent \<^verbatim>\<open>pommodel\<close>, after
  section 4.3: it fails if the Pomodoro has no Intention or if the Intention's
  \<^verbatim>\<open>wasSuccessful\<close> is already set, and otherwise sets \<^verbatim>\<open>wasSuccessful\<close> to the verdict.
\<close>

definition spec_evaluateIntention :: "Pomodoro \<Rightarrow> bool \<Rightarrow> exn + Pomodoro" where
  "spec_evaluateIntention pomodoro succeeded =
     (case intention pomodoro of
        None \<Rightarrow> Inl (Raised ''no intention'')
      | Some i \<Rightarrow>
          (case wasSuccessful i of
             Some v \<Rightarrow> Inl (Raised ''already evaluated'')
           | None \<Rightarrow> Inr (pomodoro\<lparr>intention := Some (i\<lparr>wasSuccessful := Some succeeded\<rparr>)\<rparr>)))"

section \<open>mac_gui.py: the functions of the module\<close>

text \<open>
  What the modal alert of \<^verbatim>\<open>getString\<close> comes back with: the value of \<^verbatim>\<open>runModal()\<close> and
  the content of the text field.
\<close>

record Dialog =
  response :: int
  stringValue :: string

definition NSAlertFirstButtonReturn :: int where
  "NSAlertFirstButtonReturn = 1000"

definition getString :: "string \<Rightarrow> string \<Rightarrow> string \<Rightarrow> Dialog \<Rightarrow> string" where
  "getString title' question defaultValue dialog =
     (if response dialog = NSAlertFirstButtonReturn then stringValue dialog else [])"

text \<open>
  How \<^verbatim>\<open>print\<close> and an f-string show a response: the \<^verbatim>\<open>str\<close> of an enumeration member.
\<close>

fun strResponse :: "IntentionResponse \<Rightarrow> string" where
  "strResponse CanBeSet = ''IntentionResponse.CanBeSet''"
| "strResponse AlreadySet = ''IntentionResponse.AlreadySet''"
| "strResponse OnBreak = ''IntentionResponse.OnBreak''"
| "strResponse TooLate = ''IntentionResponse.TooLate''"
| "strResponse WasSet = ''IntentionResponse.WasSet''"

text \<open>
  The expression \<^verbatim>\<open>day.pendingIntervals[0].intention.description\<close>, with the exceptions of
  an empty list, of a Break (which has no such attribute) and of \<^verbatim>\<open>None\<close>.
\<close>

definition headDescription :: "Day \<Rightarrow> exn + string" where
  "headDescription day =
     (case pendingIntervals day of
        [] \<Rightarrow> Inl IndexError
      | IsBreak b # rest \<Rightarrow> Inl AttributeError
      | IsPomodoro p # rest \<Rightarrow>
          (case intention p of None \<Rightarrow> Inl AttributeError | Some i \<Rightarrow> Inr (description i)))"

text \<open>
  The \<^verbatim>\<open>if\<close>/\<^verbatim>\<open>elif\<close> chain of \<^verbatim>\<open>expressIntention\<close>: what it posts and prints, or the
  exception it raises.
\<close>

definition respond :: "Day \<Rightarrow> string \<Rightarrow> IntentionResponse \<Rightarrow> exn + effect list" where
  "respond day newIntention intentionResult =
     (if intentionResult = WasSet
      then Inr (notify ''Intention Set'' (ldquo @ newIntention @ rdquo) [])
      else if intentionResult = AlreadySet
      then (case headDescription day of
              Inl e \<Rightarrow> Inl e
            | Inr description' \<Rightarrow>
                Inr (notify ''Intention Not Set'' ''Already Specified''
                       (''intention was already: '' @ ldquo @ description' @ rdquo)))
      else if intentionResult = TooLate
      then Inr (notify ''Intention Not Set'' ''Too Late''
                  ''It's too late to set an intention. Try again next time!'')
      else if intentionResult = OnBreak
      then Inr (notify ''Intention Not Set'' ''You're On Break''
                  ''Set the intention when the pom begins.'')
      else Inr (notify ''Intention Confusion'' ''Internal Error''
                  (''received '' @ strResponse intentionResult)
                @ [Print [Lit ''very surprised:'', ShownResponse intentionResult]]))"

text \<open>
  \<^verbatim>\<open>expressIntention(day, newIntention)\<close>. The first argument is the method
  \<^verbatim>\<open>Day.expressIntention\<close>, the second the reading of \<^verbatim>\<open>datetime.now(tz=tzlocal())\<close>. The
  result is the day after the call, the trace, and the exception raised, if any.
\<close>

definition expressIntention ::
  "(Day \<Rightarrow> datetime \<Rightarrow> string \<Rightarrow> exn + IntentionResponse \<times> Day) \<Rightarrow> datetime \<Rightarrow> Day \<Rightarrow> string
     \<Rightarrow> Day \<times> effect list \<times> exn option" where
  "expressIntention dayExpressIntention present day newIntention =
     (case dayExpressIntention day present newIntention of
        Inl e \<Rightarrow> (day, [Calls_expressIntention day present newIntention], Some e)
      | Inr (intentionResult, day') \<Rightarrow>
          (let es = [Calls_expressIntention day present newIntention,
                     Print [Lit ''IR'', ShownResponse intentionResult]]
           in case respond day' newIntention intentionResult of
                Inl e \<Rightarrow> (day', es, Some e)
              | Inr es' \<Rightarrow>
                  (day',
                   es @ es' @ [Print [Lit ''saving day''], SaveDay day', Print [Lit ''saved'']],
                   None)))"

text \<open>
  \<^verbatim>\<open>setIntention(day)\<close>: the body of the \<^verbatim>\<open>try\<close>, then the function with its
  \<^verbatim>\<open>except BaseException\<close>. The dialog either raises or comes back.
\<close>

definition setIntention_try ::
  "(Day \<Rightarrow> datetime \<Rightarrow> string \<Rightarrow> exn + IntentionResponse \<times> Day) \<Rightarrow> exn + Dialog \<Rightarrow> datetime
     \<Rightarrow> Day \<Rightarrow> Day \<times> effect list \<times> exn option" where
  "setIntention_try dayExpressIntention dialog present day =
     (case dialog of
        Inl e \<Rightarrow> (day, [], Some e)
      | Inr dlg \<Rightarrow>
          (let newIntention = getString ''Set An Intention'' ''What is your intention?'' [] dlg
           in case expressIntention dayExpressIntention present day newIntention of
                (day', es, x) \<Rightarrow> (day', Print [Lit ''String Get''] # es, x)))"

definition setIntention ::
  "(Day \<Rightarrow> datetime \<Rightarrow> string \<Rightarrow> exn + IntentionResponse \<times> Day) \<Rightarrow> exn + Dialog \<Rightarrow> datetime
     \<Rightarrow> Day \<Rightarrow> Day \<times> effect list \<times> exn option" where
  "setIntention dayExpressIntention dialog present day =
     (case setIntention_try dayExpressIntention dialog present day of
        (day', es, None) \<Rightarrow> (day', es, None)
      | (day', es, Some e) \<Rightarrow> (day', es @ [PrintTraceback e], None))"

text \<open>
  Running the handler that \<^verbatim>\<open>pomodoroStarting\<close> registered, on the text the user typed
  and on the day it closes over.
\<close>

fun runCallback ::
  "callback \<Rightarrow> (Day \<Rightarrow> datetime \<Rightarrow> string \<Rightarrow> exn + IntentionResponse \<times> Day) \<Rightarrow> datetime \<Rightarrow> Day
     \<Rightarrow> string \<Rightarrow> Day \<times> effect list \<times> exn option" where
  "runCallback ExpressIntentionCallback dayExpressIntention present day userText =
     expressIntention dayExpressIntention present day userText"

text \<open>
  \<^verbatim>\<open>thisAndPreviousPoms\<close> yields objects of the day. Each one is given with the place it
  lives at, so that a mutation of it can be written back: the head of
  \<^verbatim>\<open>pendingIntervals\<close>, or an index of \<^verbatim>\<open>elapsedIntervals\<close>.
\<close>

datatype PomRef = PendingHead | Elapsed nat

text \<open>The loop over \<^verbatim>\<open>reversed(day.elapsedIntervals)\<close>, on the indexed elements.\<close>

fun elapsedPoms :: "(nat \<times> Interval) list \<Rightarrow> (PomRef \<times> Pomodoro) list" where
  "elapsedPoms [] = []"
| "elapsedPoms ((k, each) # rest) =
     (case each of
        IsPomodoro p \<Rightarrow> (Elapsed k, p) # elapsedPoms rest
      | IsBreak b \<Rightarrow> elapsedPoms rest)"

definition thisAndPreviousPoms :: "Day \<Rightarrow> (PomRef \<times> Pomodoro) list" where
  "thisAndPreviousPoms day =
     (if pendingIntervals day \<noteq> []
      then (case hd (pendingIntervals day) of
              IsPomodoro currentInterval \<Rightarrow> [(PendingHead, currentInterval)]
            | IsBreak b \<Rightarrow> [])
      else [])
     @ (if elapsedIntervals day \<noteq> []
        then elapsedPoms (rev (enumerate 0 (elapsedIntervals day)))
        else [])"

fun storePom :: "Day \<Rightarrow> PomRef \<Rightarrow> Pomodoro \<Rightarrow> Day" where
  "storePom day PendingHead p =
     day\<lparr>pendingIntervals := (pendingIntervals day)[0 := IsPomodoro p]\<rparr>"
| "storePom day (Elapsed k) p =
     day\<lparr>elapsedIntervals := (elapsedIntervals day)[k := IsPomodoro p]\<rparr>"


text \<open>\<^verbatim>\<open>newDay(forDate)\<close>: the day or the exception, and the trace.\<close>

definition newDay :: "Collaborators \<Rightarrow> int \<Rightarrow> (exn + Day) \<times> effect list" where
  "newDay c forDate =
     (if TEST_MODE c
      then (Day_forTesting c, [Print [Lit ''Creating testing day''], Calls_forTesting])
      else (loadOrCreateDay c forDate,
            [Print [Lit ''New production-mode date'', ShownDate forDate],
             Calls_loadOrCreateDay forDate]))"

text \<open>Decimal digits of a natural number, as an f-string shows an \<^verbatim>\<open>int\<close>.\<close>

function showNat :: "nat \<Rightarrow> string" where
  "showNat n =
     (if n < 10 then [char_of (48 + n)]
      else showNat (n div 10) @ [char_of (48 + n mod 10)])"
  by pat_completeness auto
termination
  by (relation "measure id") auto

declare showNat.simps [simp del]

text \<open>The symbols of the label, as their UTF-8 bytes.\<close>

definition can :: string where
  "can = [CHR 0xF0, CHR 0x9F, CHR 0xA5, CHR 0xAB]"

definition tomato :: string where
  "tomato = [CHR 0xF0, CHR 0x9F, CHR 0x8D, CHR 0x85]"

definition checkMark :: string where
  "checkMark = [CHR 0xE2, CHR 0x9C, CHR 0x93]"

definition ballotX :: string where
  "ballotX = [CHR 0xE2, CHR 0x9C, CHR 0x97]"

definition ellipsis :: string where
  "ellipsis = [CHR 0xE2, CHR 0x80, CHR 0xA6]"

text \<open>\<^verbatim>\<open>labelForDay(day)\<close>. Any of the four queries may raise.\<close>

definition labelForDay :: "Collaborators \<Rightarrow> Day \<Rightarrow> exn + string" where
  "labelForDay c day =
     (case Day_successfulPomodoros c day of Inl e \<Rightarrow> Inl e | Inr s \<Rightarrow>
     (case Day_failedPomodoros c day of Inl e \<Rightarrow> Inl e | Inr f \<Rightarrow>
     (case Day_unEvaluatedPomodoros c day of Inl e \<Rightarrow> Inl e | Inr m \<Rightarrow>
     (case Day_pendingPomodoros c day of Inl e \<Rightarrow> Inl e | Inr u \<Rightarrow>
        (let success = length s; failed = length f; mystery = length m;
             unfinished = length u;
             icon = (if success > failed then tomato else can)
         in Inr (icon @ '': ''
                 @ showNat success @ checkMark @ '' ''
                 @ showNat failed @ ballotX @ '' ''
                 @ (if mystery \<noteq> 0 then showNat mystery @ ''? '' else [])
                 @ showNat unfinished @ ellipsis))))))"

text \<open>
  The block of \<^verbatim>\<open>setSuccess\<close> under \<^verbatim>\<open>if idx == -index\<close>, for the Pomodoro \<open>aPom\<close> that
  lives at \<open>ref\<close>. The first argument is the method \<^verbatim>\<open>Day.evaluateIntention\<close>; the Pomodoro
  it mutates is written back to its place in the day. \<^verbatim>\<open>"pomodoro success".title()\<close> is
  \<^verbatim>\<open>"Pomodoro Success"\<close>, and likewise for the failure. A verdict of \<^verbatim>\<open>None\<close> counts as
  false where the code tests its truth.
\<close>

definition setSuccessOn ::
  "(Pomodoro \<Rightarrow> bool \<Rightarrow> exn + Pomodoro) \<Rightarrow> Day \<Rightarrow> bool \<Rightarrow> PomRef \<times> Pomodoro
     \<Rightarrow> Day \<times> effect list \<times> exn option" where
  "setSuccessOn evaluate day succeeded target =
     (case target of (ref, aPom) \<Rightarrow>
        (case intention aPom of
           None \<Rightarrow>
             (day,
              notify ''Intention Not Set'' ''Automatic Failure'' ''Set an intention next time!'',
              None)
         | Some i \<Rightarrow>
             (case wasSuccessful i of
                Some w \<Rightarrow>
                  (day,
                   notify ''Success Previously Set'' []
                     (''Pomodoro Already '' @ (if w then ''successful'' else ''failed'') @ ''.''),
                   None)
              | None \<Rightarrow>
                  (case evaluate aPom succeeded of
                     Inl e \<Rightarrow> (day, [Calls_evaluateIntention day aPom succeeded], Some e)
                   | Inr aPom' \<Rightarrow>
                       (case intention aPom' of
                          None \<Rightarrow>
                            (storePom day ref aPom',
                             [Calls_evaluateIntention day aPom succeeded],
                             Some AttributeError)
                        | Some i' \<Rightarrow>
                            (let truth = (wasSuccessful i' = Some True);
                                 adjective = (if truth then ''successful'' else ''failed'');
                                 noun = (if truth then ''Success'' else ''Failure'')
                             in (storePom day ref aPom',
                                 Calls_evaluateIntention day aPom succeeded
                                 # notify (''Pomodoro '' @ noun) []
                                     (''Marked Pomodoro '' @ adjective @ ''.''),
                                 None)))))))"

text \<open>
  The loop of \<^verbatim>\<open>setSuccess\<close> over \<^verbatim>\<open>enumerate(thisAndPreviousPoms(self.day))\<close>, with the
  counter \<open>idx\<close>: it runs the block on the first element whose position is \<open>- index\<close> and
  returns.
\<close>

fun setSuccessLoop ::
  "(Pomodoro \<Rightarrow> bool \<Rightarrow> exn + Pomodoro) \<Rightarrow> Day \<Rightarrow> bool \<Rightarrow> int \<Rightarrow> int
     \<Rightarrow> (PomRef \<times> Pomodoro) list \<Rightarrow> Day \<times> effect list \<times> exn option" where
  "setSuccessLoop evaluate day succeeded index idx [] = (day, [], None)"
| "setSuccessLoop evaluate day succeeded index idx (target # rest) =
     (if idx = - index
      then setSuccessOn evaluate day succeeded target
      else setSuccessLoop evaluate day succeeded index (idx + 1) rest)"

section \<open>DayManager\<close>

text \<open>
  The function a \<^verbatim>\<open>LoopingCall\<close> repeats (here always the local \<^verbatim>\<open>update\<close> of \<^verbatim>\<open>start\<close>)
  and the interval, in seconds, it was started with.
\<close>

datatype loopFunction = Update

record LoopingCall =
  call :: loopFunction
  interval :: real

text \<open>
  \<^verbatim>\<open>DayManager\<close>. Its \<^verbatim>\<open>window\<close> and \<^verbatim>\<open>progress\<close> are the same two objects the observer
  holds; the model keeps them in the observer only.
\<close>

record DayManager =
  observer :: MacPomObserver
  day :: Day
  loopingCall :: "LoopingCall option"

text \<open>
  The clock readings of one run of \<^verbatim>\<open>update\<close>: \<^verbatim>\<open>now()\<close>, \<^verbatim>\<open>date.today()\<close>, and
  \<^verbatim>\<open>rawSeconds()\<close> for the progress update.
\<close>

record Tick =
  now :: datetime
  today :: int
  rawSeconds :: real



text \<open>The first statement of \<^verbatim>\<open>update\<close> after the clock reading: the day rollover.\<close>

definition rollover ::
  "Collaborators \<Rightarrow> Tick \<Rightarrow> DayManager \<Rightarrow> DayManager \<times> effect list \<times> exn option" where
  "rollover c t self =
     (if date (now t) \<noteq> date (Day.startTime (day self))
      then (case newDay c (today t) of
              (Inl e, es) \<Rightarrow> (self, es, Some e)
            | (Inr d, es) \<Rightarrow> (self\<lparr>day := d\<rparr>, es, None))
      else (self, [], None))"

text \<open>
  The body of the \<^verbatim>\<open>try\<close> of \<^verbatim>\<open>update\<close>. The observer calls \<^verbatim>\<open>advanceToTime\<close> makes run
  inside it, in order, also when it ends with an exception.
\<close>

definition update_try ::
  "Collaborators \<Rightarrow> Tick \<Rightarrow> DayManager \<Rightarrow> DayManager \<times> effect list \<times> exn option" where
  "update_try c t self =
     (let present = now t
      in case rollover c t self of
           (self1, es1, Some e) \<Rightarrow> (self1, es1, Some e)
         | (self1, es1, None) \<Rightarrow>
             (case Day_advanceToTime c (day self1) present of
                (d', evs, x) \<Rightarrow>
                  (case deliverAll (map (Pair (rawSeconds t)) evs) (observer self1) of
                     (obs', es2) \<Rightarrow>
                       (let self2 = self1\<lparr>day := d', observer := obs'\<rparr>;
                            es = es1 @ Calls_advanceToTime (day self1) present (observer self1)
                                       # es2
                        in case x of
                             Some e \<Rightarrow> (self2, es, Some e)
                           | None \<Rightarrow>
                               (case labelForDay c d' of
                                  Inl e \<Rightarrow> (self2, es, Some e)
                                | Inr label \<Rightarrow> (self2, es @ [SetTitle label], None))))))"

text \<open>\<^verbatim>\<open>update\<close>, with its \<^verbatim>\<open>except BaseException\<close>.\<close>

definition update ::
  "Collaborators \<Rightarrow> Tick \<Rightarrow> DayManager \<Rightarrow> DayManager \<times> effect list \<times> exn option" where
  "update c t self =
     (case update_try c t self of
        (self', es, None) \<Rightarrow> (self', es, None)
      | (self', es, Some e) \<Rightarrow> (self', es @ [PrintTraceback e], None))"

text \<open>
  A running \<^verbatim>\<open>LoopingCall\<close> (Twisted): it calls its function at every scheduled time, and
  stops at the first call that raises, handing the exception to its caller. The list
  holds what each scheduled call reads; the result counts the calls made.
\<close>

fun loopingCallRun ::
  "('t \<Rightarrow> 's \<Rightarrow> 's \<times> effect list \<times> exn option) \<Rightarrow> 't list \<Rightarrow> 's
     \<Rightarrow> 's \<times> effect list \<times> nat \<times> exn option" where
  "loopingCallRun f [] s = (s, [], 0, None)"
| "loopingCallRun f (t # ts) s =
     (case f t s of
        (s', es, Some e) \<Rightarrow> (s', es, 1, Some e)
      | (s', es, None) \<Rightarrow>
          (case loopingCallRun f ts s' of
             (s'', es', n, x) \<Rightarrow> (s'', es @ es', Suc n, x)))"

text \<open>\<^verbatim>\<open>setSuccess(succeeded, index)\<close>.\<close>

definition setSuccess ::
  "(Pomodoro \<Rightarrow> bool \<Rightarrow> exn + Pomodoro) \<Rightarrow> DayManager \<Rightarrow> bool \<Rightarrow> int
     \<Rightarrow> DayManager \<times> effect list \<times> exn option" where
  "setSuccess evaluate self succeeded index =
     (case setSuccessLoop evaluate (day self) succeeded index 0
             (thisAndPreviousPoms (day self)) of
        (d', es, x) \<Rightarrow> (self\<lparr>day := d'\<rparr>, es, x))"


section \<open>Observations on a trace\<close>

fun isAdvanceCall :: "effect \<Rightarrow> bool" where
  "isAdvanceCall (Calls_advanceToTime d present ob) = True"
| "isAdvanceCall e = False"

fun isNewDayCall :: "effect \<Rightarrow> bool" where
  "isNewDayCall Calls_forTesting = True"
| "isNewDayCall (Calls_loadOrCreateDay forDate) = True"
| "isNewDayCall e = False"

fun isEvaluateCall :: "effect \<Rightarrow> bool" where
  "isEvaluateCall (Calls_evaluateIntention d p succeeded) = True"
| "isEvaluateCall e = False"

fun isSaveDay :: "effect \<Rightarrow> bool" where
  "isSaveDay (SaveDay d) = True"
| "isSaveDay e = False"

text \<open>The widths of the rectangles a drawing fills, in order.\<close>

fun fillWidths :: "drawing list \<Rightarrow> real list" where
  "fillWidths [] = []"
| "fillWidths (FillRect r # ds) = width r # fillWidths ds"
| "fillWidths (SetColor c # ds) = fillWidths ds"

text \<open>A request posted by \<^verbatim>\<open>notify\<close>: it carries the identifier of the basic messages.\<close>

fun isNotify :: "effect \<Rightarrow> bool" where
  "isNotify (AddNotificationRequest r) = (requestIdentifier r = messageIdentifier)"
| "isNotify e = False"

section \<open>Concrete states\<close>

text \<open>
  A day at its third Pomodoro: two Pomodoros and their Breaks have elapsed, the first
  judged a success, the second left without an intention; the current Pomodoro has an
  intention that is not judged yet.
\<close>

definition clockAt :: "nat \<Rightarrow> datetime" where
  "clockAt seconds = \<lparr>date = 100, timeOfDay = seconds\<rparr>"

definition pomA :: Pomodoro where
  "pomA = \<lparr>intention = Some \<lparr>description = ''plan'', wasSuccessful = Some True\<rparr>,
           Pomodoro.startTime = clockAt 36000, Pomodoro.endTime = clockAt 37500\<rparr>"

definition pomB :: Pomodoro where
  "pomB = \<lparr>intention = None,
           Pomodoro.startTime = clockAt 37800, Pomodoro.endTime = clockAt 39300\<rparr>"

definition pomC :: Pomodoro where
  "pomC = \<lparr>intention = Some \<lparr>description = ''write spec'', wasSuccessful = None\<rparr>,
           Pomodoro.startTime = clockAt 39600, Pomodoro.endTime = clockAt 41100\<rparr>"

definition breakAfter :: "Pomodoro \<Rightarrow> Break" where
  "breakAfter p =
     \<lparr>Break.startTime = Pomodoro.endTime p,
      Break.endTime = (Pomodoro.endTime p)\<lparr>timeOfDay := timeOfDay (Pomodoro.endTime p) + 300\<rparr>\<rparr>"

definition exampleDay :: Day where
  "exampleDay =
     \<lparr>Day.startTime = clockAt 0,
      pendingIntervals = [IsPomodoro pomC, IsBreak (breakAfter pomC)],
      elapsedIntervals =
        [IsPomodoro pomA, IsBreak (breakAfter pomA), IsPomodoro pomB, IsBreak (breakAfter pomB)]\<rparr>"


definition exampleObserver :: MacPomObserver where
  "exampleObserver =
     \<lparr>progressView = initBigProgressView,
      window = \<lparr>isVisible = False, alphaValue = 0.1\<rparr>,
      lastThreshold = 0,
      active = False\<rparr>"

definition exampleManager :: DayManager where
  "exampleManager = \<lparr>observer = exampleObserver, day = exampleDay, loopingCall = None\<rparr>"

text \<open>
  Collaborators for the examples: storage that creates an empty day for the date asked
  for, and a day model that reports progress on its current interval, or that the day is
  over. \<open>failingStorage\<close> is the same with a storage that raises.
\<close>

definition exampleCollaborators :: Collaborators where
  "exampleCollaborators =
     \<lparr>TEST_MODE = False,
      Day_forTesting = Inr exampleDay,
      loadOrCreateDay =
        (\<lambda>forDate. Inr \<lparr>Day.startTime = \<lparr>date = forDate, timeOfDay = 0\<rparr>,
                         pendingIntervals = [], elapsedIntervals = []\<rparr>),
      Day_advanceToTime =
        (\<lambda>d present.
           (d,
            (case pendingIntervals d of
               [] \<Rightarrow> [DayOver]
             | i # rest \<Rightarrow> [ProgressUpdate i (1 / 2) AlreadySet]),
            None)),
      Day_expressIntention = spec_expressIntention (\<lambda>present p. True),
      Day_evaluateIntention = spec_evaluateIntention,
      Day_bonusPomodoro = (\<lambda>d when. Inr d),
      Day_successfulPomodoros = (\<lambda>d. Inr []),
      Day_failedPomodoros = (\<lambda>d. Inr []),
      Day_unEvaluatedPomodoros = (\<lambda>d. Inr []),
      Day_pendingPomodoros = (\<lambda>d. Inr [])\<rparr>"

definition failingStorage :: Collaborators where
  "failingStorage = exampleCollaborators\<lparr>loadOrCreateDay := (\<lambda>forDate. Inl (Raised ''OSError''))\<rparr>"

text \<open>A tick on the date of \<open>exampleDay\<close>, and one on the next date.\<close>

definition tickSame :: Tick where
  "tickSame = \<lparr>now = clockAt 39700, today = 100, rawSeconds = 0\<rparr>"

definition tickNext :: Tick where
  "tickNext = \<lparr>now = \<lparr>date = 101, timeOfDay = 5\<rparr>, today = 101, rawSeconds = 0\<rparr>"

section \<open>The reminders of a Pomodoro\<close>

lemma notify_isReminder [simp]:
  "filter isReminder (notify t s b) = (if t = ''Remember Your Intention'' then notify t s b else [])"
  by (simp add: notify_def)

lemma notify_isReminderWith [simp]:
  "filter (isReminderWith m) (notify t s b) =
     (if t = ''Remember Your Intention'' \<and> s = m then notify t s b else [])"
  by (simp add: notify_def)

lemma length_notify [simp]: "length (notify t s b) = 1"
  by (simp add: notify_def)

lemma remindLoop_idle:
  "lastThreshold self = p \<Longrightarrow> remindLoop desc p ths self = (self, [])"
  by (induction ths) auto

lemma remindLoop_cases:
  "remindLoop desc p ths self = (self, []) \<and> (\<forall>(pct, m) \<in> set ths. \<not> (lastThreshold self \<le> pct \<and> pct < p))
   \<or> (\<exists>pct m. (pct, m) \<in> set ths \<and> lastThreshold self \<le> pct \<and> pct < p \<and>
         remindLoop desc p ths self =
           (self\<lparr>lastThreshold := p\<rparr>, notify ''Remember Your Intention'' m (ldquo @ desc @ rdquo)))"
proof (induction ths)
  case Nil
  then show ?case by simp
next
  case (Cons a ths)
  obtain pct m where a: "a = (pct, m)" by (cases a)
  show ?case
  proof (cases "lastThreshold self \<le> pct \<and> pct < p")
    case True
    have "remindLoop desc p ths (self\<lparr>lastThreshold := p\<rparr>) = (self\<lparr>lastThreshold := p\<rparr>, [])"
      by (rule remindLoop_idle) simp
    with True a show ?thesis by auto
  next
    case False
    with Cons a show ?thesis by auto 
  qed
qed


lemma lastThreshold_setColors [simp]: "lastThreshold (setColors self l r) = lastThreshold self"
  by (simp add: setColors_def)

lemma lastThreshold_setIsVisible [simp]: "lastThreshold (setIsVisible self v) = lastThreshold self"
  by (simp add: setIsVisible_def)

lemma thresholds_message_unique:
  "(pct, m) \<in> set thresholds \<Longrightarrow> (pct', m) \<in> set thresholds \<Longrightarrow> pct = pct'"
  by (auto simp: thresholds_def)

lemma progressUpdate_cases:
  "(snd (progressUpdate self i p r t) = [] \<and>
      lastThreshold (fst (progressUpdate self i p r t)) = lastThreshold self)
   \<or> (\<exists>pct m d. (pct, m) \<in> set thresholds \<and> lastThreshold self \<le> pct \<and> pct < p \<and>
         snd (progressUpdate self i p r t) = notify ''Remember Your Intention'' m d \<and>
         lastThreshold (fst (progressUpdate self i p r t)) = p)"
proof (cases "r = AlreadySet")
  case False
  then show ?thesis
    by (simp add: progressUpdate_def Let_def)
next
  case True
  show ?thesis
  proof (cases i)
    case (IsBreak b)
    with True show ?thesis by (simp add: progressUpdate_def Let_def)
  next
    case (IsPomodoro pom)
    show ?thesis
    proof (cases "intention pom")
      case None
      with True IsPomodoro show ?thesis by (simp add: progressUpdate_def Let_def)
    next
      case (Some a)
      let ?s = "setColors self greenColor blueColor"
      from remindLoop_cases [of "description a" p thresholds ?s]
      show ?thesis
      proof
        assume "remindLoop (description a) p thresholds ?s = (?s, []) \<and>
                (\<forall>(pct, m)\<in>set thresholds. \<not> (lastThreshold ?s \<le> pct \<and> pct < p))"
        with True IsPomodoro Some show ?thesis
          by (simp add: progressUpdate_def Let_def)
      next
        assume "\<exists>pct m. (pct, m) \<in> set thresholds \<and> lastThreshold ?s \<le> pct \<and> pct < p \<and>
                 remindLoop (description a) p thresholds ?s =
                   (?s\<lparr>lastThreshold := p\<rparr>,
                    notify ''Remember Your Intention'' m (ldquo @ description a @ rdquo))"
        then obtain pct m where
          "(pct, m) \<in> set thresholds" "lastThreshold self \<le> pct" "pct < p"
          "remindLoop (description a) p thresholds ?s =
             (?s\<lparr>lastThreshold := p\<rparr>,
              notify ''Remember Your Intention'' m (ldquo @ description a @ rdquo))"
          by auto
        with True IsPomodoro Some have
          "(pct, m) \<in> set thresholds \<and> lastThreshold self \<le> pct \<and> pct < p \<and>
           snd (progressUpdate self i p r t) =
             notify ''Remember Your Intention'' m (ldquo @ description a @ rdquo) \<and>
           lastThreshold (fst (progressUpdate self i p r t)) = p"
          by (simp add: progressUpdate_def Let_def)
        then show ?thesis by blast
      qed
    qed
  qed
qed

lemma deliver_step:
  assumes "\<not> isPomodoroStarting ev"
  shows "lastThreshold self \<le> lastThreshold (fst (deliver t ev self)) \<and>
         length (filter (isReminderWith m0) (snd (deliver t ev self))) \<le> 1 \<and>
         (filter (isReminderWith m0) (snd (deliver t ev self)) \<noteq> [] \<longrightarrow>
            (\<forall>pct0. (pct0, m0) \<in> set thresholds \<longrightarrow>
               lastThreshold self \<le> pct0 \<and> pct0 < lastThreshold (fst (deliver t ev self))))"
proof (cases ev)
  case (BreakStarting b)
  then show ?thesis by (simp add: breakStarting_def)
next
  case (PomodoroStarting d p)
  with assms show ?thesis by simp
next
  case (ElapsedWithNoIntention p)
  then show ?thesis by (simp add: elapsedWithNoIntention_def)
next
  case DayOver
  then show ?thesis by (simp add: dayOver_def)
next
  case (ProgressUpdate i p r)
  from progressUpdate_cases [of self i p r t] show ?thesis
  proof (elim disjE exE conjE)
    assume "snd (progressUpdate self i p r t) = []"
      "lastThreshold (fst (progressUpdate self i p r t)) = lastThreshold self"
    with ProgressUpdate show ?thesis by simp
  next
    fix pct m d
    assume h: "(pct, m) \<in> set thresholds" "lastThreshold self \<le> pct" "pct < p"
      "snd (progressUpdate self i p r t) = notify ''Remember Your Intention'' m d"
      "lastThreshold (fst (progressUpdate self i p r t)) = p"
    show ?thesis
    proof (cases "m = m0")
      case True
      with h ProgressUpdate show ?thesis
        by (auto dest: thresholds_message_unique)
    next
      case False
      with h ProgressUpdate show ?thesis by simp
    qed
  qed
qed

lemma deliverAll_bound:
  assumes "\<forall>(t, ev) \<in> set evs. \<not> isPomodoroStarting ev" and "(pct, m) \<in> set thresholds"
  shows "length (filter (isReminderWith m) (snd (deliverAll evs self)))
           \<le> (if lastThreshold self \<le> pct then 1 else 0)"
  using assms(1)
proof (induction evs arbitrary: self)
  case Nil
  then show ?case by simp
next
  case (Cons a evs)
  obtain t ev where a: "a = (t, ev)" by (cases a)
  from Cons.prems a have nps: "\<not> isPomodoroStarting ev"
    and rest: "\<forall>(t, ev) \<in> set evs. \<not> isPomodoroStarting ev" by auto
  let ?self' = "fst (deliver t ev self)"
  let ?es = "snd (deliver t ev self)"
  have split: "snd (deliverAll (a # evs) self) = ?es @ snd (deliverAll evs ?self')"
    by (simp add: a split: prod.splits)
  from deliver_step [OF nps, of self t m]
  have mono: "lastThreshold self \<le> lastThreshold ?self'"
    and one: "length (filter (isReminderWith m) ?es) \<le> 1"
    and fired: "filter (isReminderWith m) ?es \<noteq> [] \<Longrightarrow>
                  lastThreshold self \<le> pct \<and> pct < lastThreshold ?self'"
    using assms(2) by auto
  have IH: "length (filter (isReminderWith m) (snd (deliverAll evs ?self')))
              \<le> (if lastThreshold ?self' \<le> pct then 1 else 0)"
    by (rule Cons.IH [OF rest])
  show ?case
  proof (cases "filter (isReminderWith m) ?es = []")
    case True
    with IH mono show ?thesis unfolding split by (auto split: if_splits)
  next
    case False
    from fired [OF False] IH one show ?thesis unfolding split by (auto split: if_splits)
  qed
qed


text \<open>
  C8. Over any sequence of observer calls that holds no \<^verbatim>\<open>pomodoroStarting\<close> (the calls of
  one Pomodoro), each of the four thresholds posts at most one "Remember Your Intention"
  notification, from any observer state. One \<^verbatim>\<open>progressUpdate\<close> posts at most one such
  notification, and when it posts one, \<^verbatim>\<open>lastThreshold\<close> is the percentage of that call
  afterwards. A threshold below \<^verbatim>\<open>lastThreshold\<close> posts nothing for the rest of the
  sequence, so the thresholds an update jumped over are not replayed.
  \<^verbatim>\<open>pomodoroStarting\<close> sets \<^verbatim>\<open>lastThreshold\<close> back to 0.
\<close>

theorem reminder_at_most_once_per_threshold:
  assumes "\<forall>(t, ev) \<in> set evs. \<not> isPomodoroStarting ev"
    and "(pct, message) \<in> set thresholds"
  shows "length (filter (isReminderWith message) (snd (deliverAll evs self))) \<le> 1
       \<and> length (filter isReminder (snd (progressUpdate self i p r t))) \<le> 1
       \<and> (filter isReminder (snd (progressUpdate self i p r t)) \<noteq> [] \<longrightarrow>
            lastThreshold (fst (progressUpdate self i p r t)) = p)
       \<and> (pct < lastThreshold self \<longrightarrow>
            filter (isReminderWith message) (snd (deliverAll evs self)) = [])
       \<and> lastThreshold (fst (pomodoroStarting self d pom)) = 0"
proof -
  have bound: "length (filter (isReminderWith message) (snd (deliverAll evs self)))
                 \<le> (if lastThreshold self \<le> pct then 1 else 0)"
    by (rule deliverAll_bound [OF assms])
  have one: "length (filter isReminder (snd (progressUpdate self i p r t))) \<le> 1"
    using progressUpdate_cases [of self i p r t] by auto
  have at_p: "filter isReminder (snd (progressUpdate self i p r t)) \<noteq> [] \<longrightarrow>
                lastThreshold (fst (progressUpdate self i p r t)) = p"
    using progressUpdate_cases [of self i p r t] by auto
  have reset: "lastThreshold (fst (pomodoroStarting self d pom)) = 0"
    by (simp add: pomodoroStarting_def)
  from bound have "length (filter (isReminderWith message) (snd (deliverAll evs self))) \<le> 1"
    by (simp split: if_splits)
  moreover from bound have "pct < lastThreshold self \<longrightarrow>
      filter (isReminderWith message) (snd (deliverAll evs self)) = []"
    by (simp split: if_splits)
  ultimately show ?thesis using one at_p reset by blast
qed

theorem reminder_at_most_once_per_threshold_witness:
  "length (filter (isReminderWith ''Time to get started!'')
        (snd (deliverAll [(0, ProgressUpdate (IsPomodoro pomC) (3 / 5) AlreadySet),
                          (1, ProgressUpdate (IsPomodoro pomC) (4 / 5) AlreadySet)]
                (exampleObserver\<lparr>lastThreshold := 3 / 10\<rparr>)))) \<le> 1
   \<and> length (filter isReminder
        (snd (progressUpdate (exampleObserver\<lparr>lastThreshold := 3 / 10\<rparr>)
                (IsPomodoro pomC) (3 / 5) AlreadySet 0))) \<le> 1
   \<and> lastThreshold
        (fst (progressUpdate (exampleObserver\<lparr>lastThreshold := 3 / 10\<rparr>)
                (IsPomodoro pomC) (3 / 5) AlreadySet 0)) = 3 / 5
   \<and> filter (isReminderWith ''Time to get started!'')
        (snd (deliverAll [(0, ProgressUpdate (IsPomodoro pomC) (3 / 5) AlreadySet),
                          (1, ProgressUpdate (IsPomodoro pomC) (4 / 5) AlreadySet)]
                (exampleObserver\<lparr>lastThreshold := 3 / 10\<rparr>))) = []
   \<and> lastThreshold
        (fst (pomodoroStarting (exampleObserver\<lparr>lastThreshold := 3 / 10\<rparr>) exampleDay pomC)) = 0"
proof -
  let ?evs = "[(0, ProgressUpdate (IsPomodoro pomC) (3 / 5) AlreadySet),
               (1, ProgressUpdate (IsPomodoro pomC) (4 / 5) AlreadySet)]"
  let ?self = "exampleObserver\<lparr>lastThreshold := 3 / 10\<rparr>"
  have h1: "\<forall>(t, ev) \<in> set ?evs. \<not> isPomodoroStarting ev"
    by simp
  have h2: "(0.25, ''Time to get started!'') \<in> set thresholds"
    by (simp add: thresholds_def)
  have fired: "filter isReminder
                 (snd (progressUpdate ?self (IsPomodoro pomC) (3 / 5) AlreadySet 0)) \<noteq> []"
    by (simp add: progressUpdate_def thresholds_def exampleObserver_def pomC_def Let_def
        notify_def setColors_def setIsVisible_def setPercentage_def setLeftColor_def
        setRightColor_def)
  have below: "0.25 < lastThreshold ?self"
    by simp
  from reminder_at_most_once_per_threshold
         [OF h1 h2, of ?self "IsPomodoro pomC" "3 / 5" AlreadySet 0 exampleDay pomC]
       fired below
  show ?thesis by blast
qed

text \<open>
  An update at 60 percent posts the reminder of the first threshold and skips the second;
  the one at 80 percent posts the reminder of the third.
\<close>

lemma reminder_example_trace:
  "map (\<lambda>e. case e of AddNotificationRequest r \<Rightarrow> subtitle r | _ \<Rightarrow> [])
     (snd (deliverAll [(0, ProgressUpdate (IsPomodoro pomC) (3 / 5) AlreadySet),
                          (1, ProgressUpdate (IsPomodoro pomC) (7 / 10) AlreadySet),
                          (1, ProgressUpdate (IsPomodoro pomC) (4 / 5) AlreadySet)]
                exampleObserver)) = [''Time to get started!'', ''Time to finish up.'']"
  by (simp add: progressUpdate_def thresholds_def exampleObserver_def pomC_def Let_def
      notify_def setColors_def setIsVisible_def setPercentage_def setLeftColor_def
      setRightColor_def)

section \<open>The progress bar\<close>

lemma progressUpdate_percentage:
  "percentage (progressView (fst (progressUpdate self i p r t))) = p"
  by (simp add: progressUpdate_def Let_def setIsVisible_def setPercentage_def
      split: prod.splits)

lemma fillWidths_drawRect:
  "fillWidths (drawRect v bounds) =
     [percentage v * width bounds, width bounds - percentage v * width bounds]"
  by (simp add: drawRect_def Let_def)

text \<open>
  C7. \<^verbatim>\<open>progressUpdate\<close> stores exactly its \<^verbatim>\<open>percentageElapsed\<close> \<open>p\<close> into the progress view,
  whatever the other arguments are, and \<^verbatim>\<open>drawRect_\<close> then fills a left rectangle of width
  \<open>p * w\<close> and, from where it ends, a right one of width \<open>w - p * w\<close>, where \<open>w\<close> is the
  width of the bounds. For \<open>p\<close> in \<open>[0, 1]\<close> and a width that is not negative, both are
  non-negative and they sum to \<open>w\<close>. For \<open>p\<close> outside \<open>[0, 1]\<close> and a view of positive
  width, one of the two is negative.
\<close>

theorem progress_bar_partition:
  "percentage (progressView (fst (progressUpdate self i p r t))) = p
   \<and> drawRect (progressView (fst (progressUpdate self i p r t))) bounds =
       [SetColor (leftColor (progressView (fst (progressUpdate self i p r t)))),
        FillRect \<lparr>originX = 0, originY = 0, width = p * width bounds, height = height bounds\<rparr>,
        SetColor (rightColor (progressView (fst (progressUpdate self i p r t)))),
        FillRect \<lparr>originX = p * width bounds, originY = 0,
                  width = width bounds - p * width bounds, height = height bounds\<rparr>]
   \<and> (0 \<le> p \<and> p \<le> 1 \<and> 0 \<le> width bounds \<longrightarrow>
        0 \<le> fillWidths (drawRect (progressView (fst (progressUpdate self i p r t))) bounds) ! 0
      \<and> 0 \<le> fillWidths (drawRect (progressView (fst (progressUpdate self i p r t))) bounds) ! 1
      \<and> fillWidths (drawRect (progressView (fst (progressUpdate self i p r t))) bounds) ! 0
        + fillWidths (drawRect (progressView (fst (progressUpdate self i p r t))) bounds) ! 1
        = width bounds)
   \<and> ((p < 0 \<or> 1 < p) \<and> 0 < width bounds \<longrightarrow>
        fillWidths (drawRect (progressView (fst (progressUpdate self i p r t))) bounds) ! 0 < 0
      \<or> fillWidths (drawRect (progressView (fst (progressUpdate self i p r t))) bounds) ! 1 < 0)"
proof -
  let ?v = "progressView (fst (progressUpdate self i p r t))"
  have pct: "percentage ?v = p"
    by (rule progressUpdate_percentage)
  have ws: "fillWidths (drawRect ?v bounds) = [p * width bounds, width bounds - p * width bounds]"
    by (simp add: fillWidths_drawRect pct)
  have dr: "drawRect ?v bounds =
       [SetColor (leftColor ?v),
        FillRect \<lparr>originX = 0, originY = 0, width = p * width bounds, height = height bounds\<rparr>,
        SetColor (rightColor ?v),
        FillRect \<lparr>originX = p * width bounds, originY = 0,
                  width = width bounds - p * width bounds, height = height bounds\<rparr>]"
    by (simp add: drawRect_def Let_def pct)
  have in_range: "0 \<le> p \<and> p \<le> 1 \<and> 0 \<le> width bounds \<longrightarrow>
                    0 \<le> p * width bounds \<and> 0 \<le> width bounds - p * width bounds"
    by (auto simp: mult_left_le_one_le)
  have out_of_range: "(p < 0 \<or> 1 < p) \<and> 0 < width bounds \<longrightarrow>
                        p * width bounds < 0 \<or> width bounds - p * width bounds < 0"
    by (auto simp: mult_less_0_iff)
  from pct dr in_range out_of_range show ?thesis
    unfolding ws by simp
qed

theorem progress_bar_partition_witness:
  "0 \<le> fillWidths (drawRect (progressView (fst (progressUpdate exampleObserver
            (IsPomodoro pomC) (1 / 2) AlreadySet 0)))
          \<lparr>originX = 0, originY = 0, width = 100, height = 20\<rparr>) ! 0
   \<and> 0 \<le> fillWidths (drawRect (progressView (fst (progressUpdate exampleObserver
            (IsPomodoro pomC) (1 / 2) AlreadySet 0)))
          \<lparr>originX = 0, originY = 0, width = 100, height = 20\<rparr>) ! 1
   \<and> fillWidths (drawRect (progressView (fst (progressUpdate exampleObserver
            (IsPomodoro pomC) (1 / 2) AlreadySet 0)))
          \<lparr>originX = 0, originY = 0, width = 100, height = 20\<rparr>) ! 0
     + fillWidths (drawRect (progressView (fst (progressUpdate exampleObserver
            (IsPomodoro pomC) (1 / 2) AlreadySet 0)))
          \<lparr>originX = 0, originY = 0, width = 100, height = 20\<rparr>) ! 1 = 100
   \<and> (fillWidths (drawRect (progressView (fst (progressUpdate exampleObserver
            (IsPomodoro pomC) (3 / 2) AlreadySet 0)))
          \<lparr>originX = 0, originY = 0, width = 100, height = 20\<rparr>) ! 0 < 0
      \<or> fillWidths (drawRect (progressView (fst (progressUpdate exampleObserver
            (IsPomodoro pomC) (3 / 2) AlreadySet 0)))
          \<lparr>originX = 0, originY = 0, width = 100, height = 20\<rparr>) ! 1 < 0)"
  using progress_bar_partition
          [of exampleObserver "IsPomodoro pomC" "1 / 2" AlreadySet 0
              "\<lparr>originX = 0, originY = 0, width = 100, height = 20\<rparr>"]
        progress_bar_partition
          [of exampleObserver "IsPomodoro pomC" "3 / 2" AlreadySet 0
              "\<lparr>originX = 0, originY = 0, width = 100, height = 20\<rparr>"]
  by simp

section \<open>setSuccess\<close>

lemma setSuccessLoop_nth:
  "setSuccessLoop ev d s index idx xs =
     (if idx \<le> - index \<and> nat (- index - idx) < length xs
      then setSuccessOn ev d s (xs ! nat (- index - idx))
      else (d, [], None))"
proof (induction xs arbitrary: idx)
  case Nil
  then show ?case by simp
next
  case (Cons x xs)
  show ?case
  proof (cases "idx = - index")
    case True
    then show ?thesis by simp
  next
    case False
    have "nat (- index - idx) = Suc (nat (- index - (idx + 1)))" if "idx \<le> - index"
      using that False by simp
    then show ?thesis using False Cons.IH [of "idx + 1"] by auto
  qed
qed

lemma setSuccessOn_calls:
  assumes "Calls_evaluateIntention d' p s' \<in> set (fst (snd (setSuccessOn ev d s (ref, aPom))))"
  shows "p = aPom \<and> s' = s \<and> d' = d \<and> (\<exists>i. intention aPom = Some i \<and> wasSuccessful i = None)"
  using assms
  by (auto simp: setSuccessOn_def notify_def Let_def
      split: option.splits sum.splits if_splits)

lemma setSuccessOn_spec_ok:
  "snd (snd (setSuccessOn spec_evaluateIntention d s target)) = None"
  by (cases target)
    (auto simp: setSuccessOn_def spec_evaluateIntention_def Let_def
      split: option.splits sum.splits)

lemma setSuccessOn_judged:
  assumes "intention aPom = None \<or> (\<exists>i w. intention aPom = Some i \<and> wasSuccessful i = Some w)"
  shows "\<exists>n. isNotify n \<and> setSuccessOn ev d s (ref, aPom) = (d, [n], None)"
  using assms
  by (auto simp: setSuccessOn_def notify_def)

text \<open>
  C1. Whatever \<^verbatim>\<open>Day.evaluateIntention\<close> does, every call \<^verbatim>\<open>setSuccess\<close> makes of it is on
  a Pomodoro that has an intention whose \<^verbatim>\<open>wasSuccessful\<close> is unset, which is where the
  \<^verbatim>\<open>evaluateIntention\<close> of the spec does not fail. When the targeted Pomodoro has no
  intention, or a verdict already, \<^verbatim>\<open>setSuccess\<close> posts one notification and returns with
  the day unchanged and no call. With the \<^verbatim>\<open>evaluateIntention\<close> of the spec, \<^verbatim>\<open>setSuccess\<close>
  never ends with an exception.
\<close>

theorem setSuccess_guards_evaluateIntention:
  "(Calls_evaluateIntention d p s \<in> set (fst (snd (setSuccess evaluate self succeeded index)))
      \<longrightarrow> (\<exists>i. intention p = Some i \<and> wasSuccessful i = None)
          \<and> (\<exists>p'. spec_evaluateIntention p s = Inr p'))
   \<and> (0 \<le> - index \<and> nat (- index) < length (thisAndPreviousPoms (day self))
        \<and> snd (thisAndPreviousPoms (day self) ! nat (- index)) = aPom
        \<and> (intention aPom = None \<or> (\<exists>i w. intention aPom = Some i \<and> wasSuccessful i = Some w))
      \<longrightarrow> (\<exists>n. isNotify n \<and> setSuccess evaluate self succeeded index = (self, [n], None)))
   \<and> snd (snd (setSuccess spec_evaluateIntention self succeeded index)) = None"
proof (intro conjI impI)
  assume c: "Calls_evaluateIntention d p s
               \<in> set (fst (snd (setSuccess evaluate self succeeded index)))"
  let ?xs = "thisAndPreviousPoms (day self)"
  from c have inr: "0 \<le> - index \<and> nat (- index) < length ?xs"
    by (auto simp: setSuccess_def setSuccessLoop_nth split: if_splits prod.splits)
  obtain ref aPom' where t: "?xs ! nat (- index) = (ref, aPom')"
    by (cases "?xs ! nat (- index)")
  from c inr t have "Calls_evaluateIntention d p s
      \<in> set (fst (snd (setSuccessOn evaluate (day self) succeeded (ref, aPom'))))"
    by (auto simp: setSuccess_def setSuccessLoop_nth split: prod.splits)
  from setSuccessOn_calls [OF this]
  have i: "\<exists>i. intention p = Some i \<and> wasSuccessful i = None" by auto
  then show "\<exists>i. intention p = Some i \<and> wasSuccessful i = None" .
  from i show "\<exists>p'. spec_evaluateIntention p s = Inr p'"
    by (auto simp: spec_evaluateIntention_def)
next
  assume h: "0 \<le> - index \<and> nat (- index) < length (thisAndPreviousPoms (day self))
        \<and> snd (thisAndPreviousPoms (day self) ! nat (- index)) = aPom
        \<and> (intention aPom = None \<or> (\<exists>i w. intention aPom = Some i \<and> wasSuccessful i = Some w))"
  let ?xs = "thisAndPreviousPoms (day self)"
  obtain ref where t: "?xs ! nat (- index) = (ref, aPom)"
    using h by (cases "?xs ! nat (- index)") auto
  from h have "\<exists>n. isNotify n \<and>
      setSuccessOn evaluate (day self) succeeded (ref, aPom) = (day self, [n], None)"
    by (intro setSuccessOn_judged) simp
  then obtain n where n: "isNotify n"
    "setSuccessOn evaluate (day self) succeeded (ref, aPom) = (day self, [n], None)" by blast
  from h t n(2) have "setSuccess evaluate self succeeded index = (self, [n], None)"
    by (simp add: setSuccess_def setSuccessLoop_nth)
  with n(1) show "\<exists>n. isNotify n \<and> setSuccess evaluate self succeeded index = (self, [n], None)"
    by blast
next
  show "snd (snd (setSuccess spec_evaluateIntention self succeeded index)) = None"
    using setSuccessOn_spec_ok
            [of "day self" succeeded "thisAndPreviousPoms (day self) ! nat (- index)"]
    by (auto simp: setSuccess_def setSuccessLoop_nth split: prod.splits)
qed

lemma example_poms: "thisAndPreviousPoms exampleDay = [(PendingHead, pomC), (Elapsed 2, pomB), (Elapsed 0, pomA)]"
  by (simp add: thisAndPreviousPoms_def exampleDay_def enumerate_eq_zip upt_rec)


lemma day_exampleManager: "day exampleManager = exampleDay"
  by (simp add: exampleManager_def)

lemma intention_examples:
  "intention pomA = Some \<lparr>description = ''plan'', wasSuccessful = Some True\<rparr>"
  "intention pomB = None"
  "intention pomC = Some \<lparr>description = ''write spec'', wasSuccessful = None\<rparr>"
  by (simp_all add: pomA_def pomB_def pomC_def)

theorem setSuccess_guards_evaluateIntention_witness:
  "((\<exists>i. intention pomC = Some i \<and> wasSuccessful i = None)
      \<and> (\<exists>p'. spec_evaluateIntention pomC True = Inr p'))
   \<and> (\<exists>n. isNotify n \<and>
         setSuccess spec_evaluateIntention exampleManager True (- 1) = (exampleManager, [n], None))
   \<and> snd (snd (setSuccess spec_evaluateIntention exampleManager True 0)) = None"
proof -
  have poms: "thisAndPreviousPoms (day exampleManager) =
                [(PendingHead, pomC), (Elapsed 2, pomB), (Elapsed 0, pomA)]"
    by (simp add: day_exampleManager example_poms)
  have called: "Calls_evaluateIntention exampleDay pomC True
                  \<in> set (fst (snd (setSuccess spec_evaluateIntention exampleManager True 0)))"
    by (simp add: setSuccess_def example_poms setSuccessOn_def intention_examples
        spec_evaluateIntention_def day_exampleManager Let_def)
  have target: "0 \<le> - (- 1 :: int) \<and> nat (- (- 1)) < length (thisAndPreviousPoms (day exampleManager))
        \<and> snd (thisAndPreviousPoms (day exampleManager) ! nat (- (- 1))) = pomB
        \<and> (intention pomB = None \<or> (\<exists>i w. intention pomB = Some i \<and> wasSuccessful i = Some w))"
    by (simp add: poms intention_examples)
  from setSuccess_guards_evaluateIntention
         [of exampleDay pomC True spec_evaluateIntention exampleManager True 0 pomB]
       called
  have a: "(\<exists>i. intention pomC = Some i \<and> wasSuccessful i = None)
      \<and> (\<exists>p'. spec_evaluateIntention pomC True = Inr p')"
    and c: "snd (snd (setSuccess spec_evaluateIntention exampleManager True 0)) = None"
    by blast+
  from setSuccess_guards_evaluateIntention
         [of exampleDay pomC True spec_evaluateIntention exampleManager True "- 1" pomB]
       target
  have b: "\<exists>n. isNotify n \<and>
         setSuccess spec_evaluateIntention exampleManager True (- 1) = (exampleManager, [n], None)"
    by blast
  from a b c show ?thesis by blast
qed


lemma elapsedPoms_refs:
  assumes "(ref, p) \<in> set (elapsedPoms ys)"
  shows "\<exists>k. ref = Elapsed k \<and> (k, IsPomodoro p) \<in> set ys"
  using assms
proof (induction ys)
  case Nil
  then show ?case by simp
next
  case (Cons y ys)
  obtain k each where y: "y = (k, each)" by (cases y)
  with Cons show ?case by (cases each) auto
qed


lemma thisAndPreviousPoms_refs:
  assumes "(ref, p) \<in> set (thisAndPreviousPoms d)"
  shows "case ref of
           PendingHead \<Rightarrow> pendingIntervals d \<noteq> [] \<and> hd (pendingIntervals d) = IsPomodoro p
         | Elapsed k \<Rightarrow> k < length (elapsedIntervals d) \<and> elapsedIntervals d ! k = IsPomodoro p"
proof -
  from assms have
    "(pendingIntervals d \<noteq> [] \<and> hd (pendingIntervals d) = IsPomodoro p \<and> ref = PendingHead)
     \<or> (ref, p) \<in> set (elapsedPoms (rev (enumerate 0 (elapsedIntervals d))))"
    unfolding thisAndPreviousPoms_def
    by (cases "pendingIntervals d = []"; cases "hd (pendingIntervals d)";
        cases "elapsedIntervals d = []") auto
  then show ?thesis
  proof
    assume "pendingIntervals d \<noteq> [] \<and> hd (pendingIntervals d) = IsPomodoro p \<and> ref = PendingHead"
    then show ?thesis by simp
  next
    assume "(ref, p) \<in> set (elapsedPoms (rev (enumerate 0 (elapsedIntervals d))))"
    from elapsedPoms_refs [OF this] obtain k where
      "ref = Elapsed k" "(k, IsPomodoro p) \<in> set (enumerate 0 (elapsedIntervals d))"
      by auto
    then show ?thesis by (auto simp: in_set_enumerate_eq)
  qed
qed




section \<open>expressIntention\<close>

lemma respond_one_notify:
  assumes "respond d userText r = Inr es"
  shows "\<exists>n. isNotify n \<and> filter (\<lambda>e. isNotify e \<or> isSaveDay e) es = [n]"
proof -
  have n: "\<exists>n. isNotify n \<and> filter (\<lambda>e. isNotify e \<or> isSaveDay e) (notify t s b) = [n]" for t s b
    by (simp add: notify_def)
  from assms show ?thesis
    by (auto simp: respond_def n split: if_splits sum.splits)
qed

lemma respond_returns:
  assumes "r = AlreadySet \<longrightarrow>
             (\<exists>p rest i. pendingIntervals d = IsPomodoro p # rest \<and> intention p = Some i)"
  shows "\<exists>es. respond d userText r = Inr es"
  using assms by (auto simp: respond_def headDescription_def)

lemma spec_expressIntention_returns:
  "\<exists>r d'. spec_expressIntention accepts d present userText = Inr (r, d') \<and>
      (r = AlreadySet \<longrightarrow>
         (\<exists>p rest i. pendingIntervals d' = IsPomodoro p # rest \<and> intention p = Some i))"
  by (auto simp: spec_expressIntention_def split: list.splits Interval.splits option.splits)

lemma expressIntention_returns:
  assumes "dayExpressIntention d present userText = Inr (r, d')"
    and "r = AlreadySet \<longrightarrow>
           (\<exists>p rest i. pendingIntervals d' = IsPomodoro p # rest \<and> intention p = Some i)"
  shows "\<exists>n. isNotify n \<and>
           filter (\<lambda>e. isNotify e \<or> isSaveDay e)
             (fst (snd (expressIntention dayExpressIntention present d userText))) = [n, SaveDay d'] \<and>
           snd (snd (expressIntention dayExpressIntention present d userText)) = None \<and>
           fst (expressIntention dayExpressIntention present d userText) = d'"
proof -
  from respond_returns [OF assms(2)] obtain es where es: "respond d' userText r = Inr es" by blast
  from respond_one_notify [OF es] obtain n where
    n: "isNotify n" "filter (\<lambda>e. isNotify e \<or> isSaveDay e) es = [n]" by blast
  from assms(1) es n show ?thesis
    by (simp add: expressIntention_def Let_def)
qed

text \<open>
  C2. Whenever \<^verbatim>\<open>Day.expressIntention\<close> returns, with any response, where an answer of
  \<^verbatim>\<open>AlreadySet\<close> comes with a pending head that is a Pomodoro with an intention, the
  wrapper \<^verbatim>\<open>expressIntention\<close> posts exactly one notification, then saves that day exactly
  once, and raises nothing. The \<^verbatim>\<open>Day.expressIntention\<close> of the spec always returns, and
  answers \<^verbatim>\<open>AlreadySet\<close> only with such a head; so with it the wrapper always notifies
  once, saves once and raises nothing.
\<close>

theorem expressIntention_notifies_once_then_saves:
  "(dayExpressIntention d present userText = Inr (r, d')
      \<and> (r = AlreadySet \<longrightarrow>
           (\<exists>p rest i. pendingIntervals d' = IsPomodoro p # rest \<and> intention p = Some i))
     \<longrightarrow> (\<exists>n. isNotify n \<and>
            filter (\<lambda>e. isNotify e \<or> isSaveDay e)
              (fst (snd (expressIntention dayExpressIntention present d userText))) = [n, SaveDay d'] \<and>
            snd (snd (expressIntention dayExpressIntention present d userText)) = None))
   \<and> (\<exists>r d'. spec_expressIntention accepts d present userText = Inr (r, d') \<and>
        (r = AlreadySet \<longrightarrow>
           (\<exists>p rest i. pendingIntervals d' = IsPomodoro p # rest \<and> intention p = Some i)))
   \<and> (\<exists>n. isNotify n \<and>
        filter (\<lambda>e. isNotify e \<or> isSaveDay e)
          (fst (snd (expressIntention (spec_expressIntention accepts) present d userText))) =
          [n, SaveDay (fst (expressIntention (spec_expressIntention accepts) present d userText))] \<and>
        snd (snd (expressIntention (spec_expressIntention accepts) present d userText)) = None)"
proof (intro conjI impI)
  assume "dayExpressIntention d present userText = Inr (r, d')
      \<and> (r = AlreadySet \<longrightarrow>
           (\<exists>p rest i. pendingIntervals d' = IsPomodoro p # rest \<and> intention p = Some i))"
  then show "\<exists>n. isNotify n \<and>
            filter (\<lambda>e. isNotify e \<or> isSaveDay e)
              (fst (snd (expressIntention dayExpressIntention present d userText))) = [n, SaveDay d'] \<and>
            snd (snd (expressIntention dayExpressIntention present d userText)) = None"
    using expressIntention_returns [of dayExpressIntention d present userText r d'] by blast
next
  show "\<exists>r d'. spec_expressIntention accepts d present userText = Inr (r, d') \<and>
        (r = AlreadySet \<longrightarrow>
           (\<exists>p rest i. pendingIntervals d' = IsPomodoro p # rest \<and> intention p = Some i))"
    by (rule spec_expressIntention_returns)
next
  from spec_expressIntention_returns [of accepts d present userText] obtain r d' where
    s: "spec_expressIntention accepts d present userText = Inr (r, d')"
    "r = AlreadySet \<longrightarrow>
       (\<exists>p rest i. pendingIntervals d' = IsPomodoro p # rest \<and> intention p = Some i)"
    by blast
  from expressIntention_returns
         [of "spec_expressIntention accepts" d present userText r d', OF s]
  show "\<exists>n. isNotify n \<and>
        filter (\<lambda>e. isNotify e \<or> isSaveDay e)
          (fst (snd (expressIntention (spec_expressIntention accepts) present d userText))) =
          [n, SaveDay (fst (expressIntention (spec_expressIntention accepts) present d userText))] \<and>
        snd (snd (expressIntention (spec_expressIntention accepts) present d userText)) = None"
    by auto
qed

lemma example_spec_expressIntention:
  "spec_expressIntention (\<lambda>present p. True) exampleDay (clockAt 39700) ''tidy up'' =
     Inr (AlreadySet, exampleDay)"
  by (simp add: spec_expressIntention_def exampleDay_def pomC_def)

lemma example_head:
  "\<exists>p rest i. pendingIntervals exampleDay = IsPomodoro p # rest \<and> intention p = Some i"
  by (simp add: exampleDay_def pomC_def)

theorem expressIntention_notifies_once_then_saves_witness:
  "\<exists>n. isNotify n \<and>
      filter (\<lambda>e. isNotify e \<or> isSaveDay e)
        (fst (snd (expressIntention (spec_expressIntention (\<lambda>present p. True)) (clockAt 39700)
                     exampleDay ''tidy up''))) = [n, SaveDay exampleDay] \<and>
      snd (snd (expressIntention (spec_expressIntention (\<lambda>present p. True)) (clockAt 39700)
                  exampleDay ''tidy up'')) = None"
  using expressIntention_notifies_once_then_saves
          [of "spec_expressIntention (\<lambda>present p. True)" exampleDay "clockAt 39700"
              "''tidy up''" AlreadySet exampleDay "\<lambda>present p. True"]
        example_spec_expressIntention example_head
  by blast

section \<open>The periodic update\<close>

lemma progressUpdate_trace:
  "snd (progressUpdate self i p r t) = []
   \<or> (\<exists>m d. snd (progressUpdate self i p r t) = notify ''Remember Your Intention'' m d)"
  using progressUpdate_cases [of self i p r t] by blast

lemma deliver_no_advance: "filter isAdvanceCall (snd (deliver t ev ob)) = []"
proof (cases ev)
  case (ProgressUpdate i p r)
  with progressUpdate_trace [of ob i p r t] show ?thesis
    by (auto simp: notify_def)
qed (simp_all add: breakStarting_def pomodoroStarting_def elapsedWithNoIntention_def
       dayOver_def notify_def askForIntent_def)

lemma deliver_no_newDay: "filter isNewDayCall (snd (deliver t ev ob)) = []"
proof (cases ev)
  case (ProgressUpdate i p r)
  with progressUpdate_trace [of ob i p r t] show ?thesis
    by (auto simp: notify_def)
qed (simp_all add: breakStarting_def pomodoroStarting_def elapsedWithNoIntention_def
       dayOver_def notify_def askForIntent_def)

lemma deliverAll_no_advance: "filter isAdvanceCall (snd (deliverAll evs ob)) = []"
proof (induction evs arbitrary: ob)
  case Nil
  then show ?case by simp
next
  case (Cons a evs)
  obtain t ev where a: "a = (t, ev)" by (cases a)
  have "snd (deliverAll (a # evs) ob) =
          snd (deliver t ev ob) @ snd (deliverAll evs (fst (deliver t ev ob)))"
    by (simp add: a split: prod.splits)
  then show ?case by (simp add: deliver_no_advance Cons.IH)
qed

lemma deliverAll_no_newDay: "filter isNewDayCall (snd (deliverAll evs ob)) = []"
proof (induction evs arbitrary: ob)
  case Nil
  then show ?case by simp
next
  case (Cons a evs)
  obtain t ev where a: "a = (t, ev)" by (cases a)
  have "snd (deliverAll (a # evs) ob) =
          snd (deliver t ev ob) @ snd (deliverAll evs (fst (deliver t ev ob)))"
    by (simp add: a split: prod.splits)
  then show ?case by (simp add: deliver_no_newDay Cons.IH)
qed

lemma update_try_after_rollover:
  assumes "rollover c t self = (self1, es1, None)"
  shows "filter isAdvanceCall (fst (snd (update_try c t self))) =
           filter isAdvanceCall es1 @ [Calls_advanceToTime (day self1) (now t) (observer self1)]"
    and "filter isNewDayCall (fst (snd (update_try c t self))) = filter isNewDayCall es1"
    and "day (fst (update_try c t self)) = fst (Day_advanceToTime c (day self1) (now t))"
proof -
  obtain d' evs x where adv: "Day_advanceToTime c (day self1) (now t) = (d', evs, x)"
    by (cases "Day_advanceToTime c (day self1) (now t)")
  obtain ob' es2 where del: "deliverAll (map (Pair (rawSeconds t)) evs) (observer self1) = (ob', es2)"
    by (cases "deliverAll (map (Pair (rawSeconds t)) evs) (observer self1)")
  from deliverAll_no_advance [of "map (Pair (rawSeconds t)) evs" "observer self1"] del
  have q1: "filter isAdvanceCall es2 = []" by simp
  from deliverAll_no_newDay [of "map (Pair (rawSeconds t)) evs" "observer self1"] del
  have q2: "filter isNewDayCall es2 = []" by simp
  show "filter isAdvanceCall (fst (snd (update_try c t self))) =
           filter isAdvanceCall es1 @ [Calls_advanceToTime (day self1) (now t) (observer self1)]"
    using assms adv del q1
    by (simp add: update_try_def Let_def split: option.splits sum.splits)
  show "filter isNewDayCall (fst (snd (update_try c t self))) = filter isNewDayCall es1"
    using assms adv del q2
    by (simp add: update_try_def Let_def split: option.splits sum.splits)
  show "day (fst (update_try c t self)) = fst (Day_advanceToTime c (day self1) (now t))"
    using assms adv del
    by (simp add: update_try_def Let_def split: option.splits sum.splits)
qed

lemma update_try_rollover_raised:
  assumes "rollover c t self = (self1, es1, Some e)"
  shows "update_try c t self = (self1, es1, Some e)"
  using assms by (simp add: update_try_def)

lemma update_observes:
  "filter isAdvanceCall (fst (snd (update c t self))) = filter isAdvanceCall (fst (snd (update_try c t self)))"
  "filter isNewDayCall (fst (snd (update c t self))) = filter isNewDayCall (fst (snd (update_try c t self)))"
  "fst (update c t self) = fst (update_try c t self)"
  "snd (snd (update c t self)) = None"
  by (auto simp: update_def split: prod.splits option.splits)

lemma newDay_trace:
  "filter isAdvanceCall (snd (newDay c forDate)) = []"
  "length (filter isNewDayCall (snd (newDay c forDate))) = 1"
  by (simp_all add: newDay_def)

lemma rollover_facts:
  "filter isAdvanceCall (fst (snd (rollover c t self))) = []"
  "observer (fst (rollover c t self)) = observer self"
  by (auto simp: rollover_def newDay_def split: sum.splits prod.splits)

lemma rollover_same_date:
  "date (now t) = date (Day.startTime (day self)) \<Longrightarrow> rollover c t self = (self, [], None)"
  by (simp add: rollover_def)

lemma rollover_new_date:
  assumes "date (now t) \<noteq> date (Day.startTime (day self))"
  shows "fst (newDay c (today t)) = Inr d' \<Longrightarrow>
           rollover c t self = (self\<lparr>day := d'\<rparr>, snd (newDay c (today t)), None)"
    and "fst (newDay c (today t)) = Inl e \<Longrightarrow>
           rollover c t self = (self, snd (newDay c (today t)), Some e)"
  using assms by (auto simp: rollover_def split: prod.splits)

lemma update_advance_calls:
  "filter isAdvanceCall (fst (snd (update c t self))) =
     (case rollover c t self of
        (self1, es1, None) \<Rightarrow> [Calls_advanceToTime (day self1) (now t) (observer self)]
      | (self1, es1, Some e) \<Rightarrow> [])"
proof -
  obtain self1 es1 x where r: "rollover c t self = (self1, es1, x)"
    by (cases "rollover c t self")
  from rollover_facts [of c t self] r
  have q: "filter isAdvanceCall es1 = []" and ob: "observer self1 = observer self" by simp_all
  show ?thesis
  proof (cases x)
    case None
    with r update_try_after_rollover(1) [of c t self self1 es1] q ob show ?thesis
      by (simp add: update_observes)
  next
    case (Some e)
    with r update_try_rollover_raised [of c t self self1 es1 e] q show ?thesis
      by (simp add: update_observes)
  qed
qed

text \<open>
  C3. A run of \<^verbatim>\<open>update\<close> calls \<^verbatim>\<open>newDay\<close> if and only if the date of \<^verbatim>\<open>now()\<close> differs from
  the date of \<^verbatim>\<open>self.day.startTime\<close>. When the dates differ and \<^verbatim>\<open>newDay(date.today())\<close>
  returns a day, \<^verbatim>\<open>advanceToTime(present, self.observer)\<close> is called once, on that new day,
  which becomes the day of the manager; when the dates are equal it is called once on the
  day the manager already had.
\<close>

theorem update_replaces_day_on_new_date:
  "(date (now t) \<noteq> date (Day.startTime (day self)) \<and> fst (newDay c (today t)) = Inr d'
      \<longrightarrow> filter isAdvanceCall (fst (snd (update c t self))) =
            [Calls_advanceToTime d' (now t) (observer self)]
          \<and> day (fst (update c t self)) = fst (Day_advanceToTime c d' (now t)))
   \<and> (date (now t) = date (Day.startTime (day self))
      \<longrightarrow> filter isAdvanceCall (fst (snd (update c t self))) =
            [Calls_advanceToTime (day self) (now t) (observer self)]
          \<and> day (fst (update c t self)) = fst (Day_advanceToTime c (day self) (now t)))
   \<and> ((filter isNewDayCall (fst (snd (update c t self))) = [])
        = (date (now t) = date (Day.startTime (day self))))"
proof (intro conjI impI)
  assume h: "date (now t) \<noteq> date (Day.startTime (day self)) \<and> fst (newDay c (today t)) = Inr d'"
  then have r: "rollover c t self = (self\<lparr>day := d'\<rparr>, snd (newDay c (today t)), None)"
    by (simp add: rollover_new_date)
  from r show "filter isAdvanceCall (fst (snd (update c t self))) =
            [Calls_advanceToTime d' (now t) (observer self)]"
    by (simp add: update_advance_calls)
  from update_try_after_rollover(3) [OF r]
  show "day (fst (update c t self)) = fst (Day_advanceToTime c d' (now t))"
    by (simp add: update_observes)
next
  assume h: "date (now t) = date (Day.startTime (day self))"
  then have r: "rollover c t self = (self, [], None)"
    by (rule rollover_same_date)
  from r show "filter isAdvanceCall (fst (snd (update c t self))) =
            [Calls_advanceToTime (day self) (now t) (observer self)]"
    by (simp add: update_advance_calls)
  from update_try_after_rollover(3) [OF r]
  show "day (fst (update c t self)) = fst (Day_advanceToTime c (day self) (now t))"
    by (simp add: update_observes)
next
  show "(filter isNewDayCall (fst (snd (update c t self))) = [])
        = (date (now t) = date (Day.startTime (day self)))"
  proof (cases "date (now t) = date (Day.startTime (day self))")
    case True
    from update_try_after_rollover(2) [OF rollover_same_date [OF True]] True
    show ?thesis by (simp add: update_observes)
  next
    case False
    have n: "filter isNewDayCall (snd (newDay c (today t))) \<noteq> []"
      using newDay_trace(2) [of c "today t"] by auto
    show ?thesis
    proof (cases "fst (newDay c (today t))")
      case (Inl e)
      from update_try_rollover_raised [OF rollover_new_date(2) [OF False Inl]] n False
      show ?thesis by (simp add: update_observes)
    next
      case (Inr d)
      from update_try_after_rollover(2) [OF rollover_new_date(1) [OF False Inr]] n False
      show ?thesis by (simp add: update_observes)
    qed
  qed
qed

lemma example_dates:
  "date (now tickSame) = date (Day.startTime (day exampleManager))"
  "date (now tickNext) \<noteq> date (Day.startTime (day exampleManager))"
  by (simp_all add: tickSame_def tickNext_def exampleManager_def exampleDay_def clockAt_def)

lemma example_newDay:
  "fst (newDay exampleCollaborators (today tickNext)) =
     Inr \<lparr>Day.startTime = \<lparr>date = 101, timeOfDay = 0\<rparr>, pendingIntervals = [],
          elapsedIntervals = []\<rparr>"
  "fst (newDay failingStorage (today tickNext)) = Inl (Raised ''OSError'')"
  by (simp_all add: newDay_def exampleCollaborators_def failingStorage_def tickNext_def)

theorem update_replaces_day_on_new_date_witness:
  "filter isAdvanceCall (fst (snd (update exampleCollaborators tickNext exampleManager))) =
     [Calls_advanceToTime
        \<lparr>Day.startTime = \<lparr>date = 101, timeOfDay = 0\<rparr>, pendingIntervals = [],
         elapsedIntervals = []\<rparr>
        (now tickNext) (observer exampleManager)]
   \<and> day (fst (update exampleCollaborators tickNext exampleManager)) =
       fst (Day_advanceToTime exampleCollaborators
              \<lparr>Day.startTime = \<lparr>date = 101, timeOfDay = 0\<rparr>, pendingIntervals = [],
               elapsedIntervals = []\<rparr>
              (now tickNext))
   \<and> filter isAdvanceCall (fst (snd (update exampleCollaborators tickSame exampleManager))) =
       [Calls_advanceToTime (day exampleManager) (now tickSame) (observer exampleManager)]
   \<and> day (fst (update exampleCollaborators tickSame exampleManager)) =
       fst (Day_advanceToTime exampleCollaborators (day exampleManager) (now tickSame))
   \<and> filter isNewDayCall (fst (snd (update exampleCollaborators tickSame exampleManager))) = []"
  using update_replaces_day_on_new_date
          [of tickNext exampleManager exampleCollaborators
              "\<lparr>Day.startTime = \<lparr>date = 101, timeOfDay = 0\<rparr>, pendingIntervals = [],
                elapsedIntervals = []\<rparr>"]
        update_replaces_day_on_new_date
          [of tickSame exampleManager exampleCollaborators exampleDay]
        example_dates example_newDay(1)
  by simp

lemma loopingCallRun_never_raising:
  assumes "\<And>t s. snd (snd (f t s)) = None"
  shows "fst (snd (snd (loopingCallRun f ticks s))) = length ticks
       \<and> snd (snd (snd (loopingCallRun f ticks s))) = None"
proof (induction ticks arbitrary: s)
  case Nil
  then show ?case by simp
next
  case (Cons t ticks)
  obtain s' es where f: "f t s = (s', es, None)"
    using assms [of t s] by (cases "f t s") auto
  from Cons.IH [of s'] show ?case
    by (auto simp: f split: prod.splits)
qed

lemma setIntention_catches:
  "snd (snd (setIntention f dialog present d)) = None"
  by (simp add: setIntention_def split: prod.splits option.splits)

text \<open>
  C10. \<^verbatim>\<open>update\<close> never ends with an exception, whatever the collaborators raise: when the
  body of its \<^verbatim>\<open>try\<close> raises, the trace of \<^verbatim>\<open>update\<close> is that of the body followed by the
  print of the traceback. So a looping call on \<^verbatim>\<open>update\<close> makes every scheduled call and
  hands no exception to its caller. \<^verbatim>\<open>setIntention\<close> likewise never ends with an exception
  and prints the traceback of what its body raised.
\<close>

theorem update_and_setIntention_catch_everything:
  "snd (snd (update c t self)) = None
   \<and> (snd (snd (update_try c t self)) = Some e \<longrightarrow>
        fst (snd (update c t self)) = fst (snd (update_try c t self)) @ [PrintTraceback e])
   \<and> fst (snd (snd (loopingCallRun (update c) ticks self))) = length ticks
   \<and> snd (snd (snd (loopingCallRun (update c) ticks self))) = None
   \<and> snd (snd (setIntention dayExpressIntention dialog present d)) = None
   \<and> (snd (snd (setIntention_try dayExpressIntention dialog present d)) = Some e' \<longrightarrow>
        fst (snd (setIntention dayExpressIntention dialog present d)) =
          fst (snd (setIntention_try dayExpressIntention dialog present d)) @ [PrintTraceback e'])"
proof (intro conjI impI)
  show "snd (snd (update c t self)) = None"
    by (rule update_observes(4))
next
  assume "snd (snd (update_try c t self)) = Some e"
  then show "fst (snd (update c t self)) = fst (snd (update_try c t self)) @ [PrintTraceback e]"
    by (auto simp: update_def split: prod.splits)
next
  have "\<And>t s. snd (snd (update c t s)) = None" by (rule update_observes(4))
  from loopingCallRun_never_raising [of "update c", OF this, of ticks self]
  show "fst (snd (snd (loopingCallRun (update c) ticks self))) = length ticks"
    and "snd (snd (snd (loopingCallRun (update c) ticks self))) = None"
    by simp_all
next
  show "snd (snd (setIntention dayExpressIntention dialog present d)) = None"
    by (rule setIntention_catches)
next
  assume "snd (snd (setIntention_try dayExpressIntention dialog present d)) = Some e'"
  then show "fst (snd (setIntention dayExpressIntention dialog present d)) =
          fst (snd (setIntention_try dayExpressIntention dialog present d)) @ [PrintTraceback e']"
    by (auto simp: setIntention_def split: prod.splits)
qed

lemma example_update_try_raises:
  "update_try failingStorage tickNext exampleManager =
     (exampleManager,
      [Print [Lit ''New production-mode date'', ShownDate 101], Calls_loadOrCreateDay 101],
      Some (Raised ''OSError''))"
  using rollover_new_date(2) [OF example_dates(2) example_newDay(2)]
  by (simp add: update_try_def newDay_def failingStorage_def exampleCollaborators_def
      tickNext_def)

lemma example_setIntention_try_raises:
  "setIntention_try (\<lambda>d p u. Inr (WasSet, d)) (Inl (Raised ''dialog'')) (clockAt 39700) exampleDay
     = (exampleDay, [], Some (Raised ''dialog''))"
  by (simp add: setIntention_try_def)

theorem update_and_setIntention_catch_everything_witness:
  "fst (snd (update failingStorage tickNext exampleManager)) =
     [Print [Lit ''New production-mode date'', ShownDate 101], Calls_loadOrCreateDay 101,
      PrintTraceback (Raised ''OSError'')]
   \<and> snd (snd (update failingStorage tickNext exampleManager)) = None
   \<and> fst (snd (snd (loopingCallRun (update failingStorage) [tickNext, tickNext, tickNext]
                     exampleManager))) = 3
   \<and> fst (snd (setIntention (\<lambda>d p u. Inr (WasSet, d)) (Inl (Raised ''dialog''))
                 (clockAt 39700) exampleDay)) = [PrintTraceback (Raised ''dialog'')]"
  using update_and_setIntention_catch_everything
          [of failingStorage tickNext exampleManager "Raised ''OSError''"
              "[tickNext, tickNext, tickNext]" "\<lambda>d p u. Inr (WasSet, d)"
              "Inl (Raised ''dialog'')" "clockAt 39700" exampleDay "Raised ''dialog''"]
  by (simp add: example_update_try_raises example_setIntention_try_raises)

text \<open>Without the handler, the same loop stops at its first call.\<close>

lemma uncaught_loop_stops:
  "loopingCallRun (update_try failingStorage) [tickNext, tickNext, tickNext] exampleManager =
     (exampleManager,
      [Print [Lit ''New production-mode date'', ShownDate 101], Calls_loadOrCreateDay 101],
      1, Some (Raised ''OSError''))"
  by (simp add: example_update_try_raises)




section \<open>The observer and the calls of advanceToTime\<close>

lemma notify_no_advance [simp]: "filter isAdvanceCall (notify a b c) = []"
  by (simp add: notify_def)

lemma respond_no_advance:
  "respond d u r = Inr es \<Longrightarrow> filter isAdvanceCall es = []"
  by (auto simp: respond_def split: if_splits sum.splits)

lemma expressIntention_no_advance:
  "filter isAdvanceCall (fst (snd (expressIntention f present d u))) = []"
proof (cases "f d present u")
  case (Inl e)
  then show ?thesis by (simp add: expressIntention_def)
next
  case (Inr rd)
  obtain r d' where rd: "rd = (r, d')" by (cases rd)
  show ?thesis
  proof (cases "respond d' u r")
    case (Inl e)
    with Inr rd show ?thesis by (simp add: expressIntention_def)
  next
    case (Inr es)
    from respond_no_advance [OF this] Inr \<open>f d present u = Inr rd\<close> rd show ?thesis
      by (simp add: expressIntention_def)
  qed
qed






text \<open>
  C5. The trace of each of the five callbacks of \<^verbatim>\<open>MacPomObserver\<close>, of \<^verbatim>\<open>notify\<close> and of
  \<^verbatim>\<open>askForIntent\<close> holds no call of \<^verbatim>\<open>Day.advanceToTime\<close>; neither does the trace of the
  handler that \<^verbatim>\<open>pomodoroStarting\<close> registers, when it runs later, nor that of any sequence
  of callbacks.
\<close>

theorem observer_callbacks_never_call_advanceToTime:
  "filter isAdvanceCall (snd (breakStarting ob b)) = []
   \<and> filter isAdvanceCall (snd (pomodoroStarting ob d p)) = []
   \<and> filter isAdvanceCall (snd (elapsedWithNoIntention ob p)) = []
   \<and> filter isAdvanceCall (snd (progressUpdate ob i pct r t)) = []
   \<and> filter isAdvanceCall (snd (dayOver ob)) = []
   \<and> filter isAdvanceCall (notify title' subtitle' informativeText) = []
   \<and> filter isAdvanceCall (askForIntent cb) = []
   \<and> filter isAdvanceCall
        (fst (snd (runCallback cb dayExpressIntention present d userText))) = []
   \<and> filter isAdvanceCall (snd (deliverAll evs ob)) = []"
proof (intro conjI)
  show "filter isAdvanceCall (snd (breakStarting ob b)) = []"
    using deliver_no_advance [of t "BreakStarting b" ob] by simp
  show "filter isAdvanceCall (snd (pomodoroStarting ob d p)) = []"
    using deliver_no_advance [of t "PomodoroStarting d p" ob] by simp
  show "filter isAdvanceCall (snd (elapsedWithNoIntention ob p)) = []"
    using deliver_no_advance [of t "ElapsedWithNoIntention p" ob] by simp
  show "filter isAdvanceCall (snd (progressUpdate ob i pct r t)) = []"
    using deliver_no_advance [of t "ProgressUpdate i pct r" ob] by simp
  show "filter isAdvanceCall (snd (dayOver ob)) = []"
    using deliver_no_advance [of t DayOver ob] by simp
  show "filter isAdvanceCall (notify title' subtitle' informativeText) = []"
    by simp
  show "filter isAdvanceCall (askForIntent cb) = []"
    by (simp add: askForIntent_def)
  show "filter isAdvanceCall
        (fst (snd (runCallback cb dayExpressIntention present d userText))) = []"
    by (cases cb) (simp add: expressIntention_no_advance)
  show "filter isAdvanceCall (snd (deliverAll evs ob)) = []"
    by (rule deliverAll_no_advance)
qed


end
